theory Spec2Isabelle
  imports Complex_Main "HOL-Library.Multiset" "HOL-Library.List_Lexorder" "HOL-Library.Char_ord"
begin
section \<open>Ledger derivation: typed rows, signed amounts, running balance, grouping\<close>

text \<open>
  A DataFrame that reaches the charts has passed \<open>MainWindow._table_to_dataframe\<close>: its
  \<open>Amount\<close> column is numeric and every other column is text. The charts read the four
  required columns only, so a frame is modelled by the list of its rows, in index order,
  projected on these columns.

  The type \<open>'a\<close> of the amounts is left open, and so are its operations: the column is
  \<open>int64\<close> or \<open>float64\<close>, whose sum wraps or rounds. The definitions use nothing but \<open>+\<close>,
  unary \<open>-\<close> and \<open>\<le>\<close> of that type, with no law assumed of them, so whatever is proved
  holds for the machine operations as it does for exact numbers.
\<close>

record 'a row =
  Description :: string
  Date :: string
  Type :: string
  Amount :: 'a

text \<open>
  What the charts call in pandas and numpy is not part of this repository; each such
  function is a parameter of the definitions that call it.

  \<open>pd.to_datetime\<close> reads a whole column at once (it may settle on one format for the
  column), so the parser maps the list of the cells to the list of their results. A cell
  becomes a timestamp, the null timestamp \<open>NaT\<close> (a null-like cell such as the empty
  string), or fails to parse; \<open>errors='coerce'\<close> turns a failure into \<open>NaT\<close>, the default
  \<open>errors='raise'\<close> into an exception.
\<close>

datatype 'd parsed = Timestamp 'd | NaT | Unparseable

datatype error = ValueError | KeyError | AttributeError | RuntimeError | OSError

text \<open>\<open>str.lower()\<close>, on the ASCII letters; no other character lowers to a letter of \<open>income\<close>.\<close>

definition to_lower :: "char \<Rightarrow> char" where
  "to_lower c =
     (case map_of (zip ''ABCDEFGHIJKLMNOPQRSTUVWXYZ'' ''abcdefghijklmnopqrstuvwxyz'') c of
        None \<Rightarrow> c
      | Some l \<Rightarrow> l)"

definition lower :: "string \<Rightarrow> string" where
  "lower s = map to_lower s"

text \<open>
  The lambda of \<open>Charts._create_line_chart\<close> and \<open>PdfExporter._create_time_chart\<close>:
  \<^verbatim>\<open>row['Amount'] if row['Type'].lower() == 'income' else -row['Amount']\<close>
\<close>

definition signed_amount :: "('a::uminus) row \<Rightarrow> 'a" where
  "signed_amount r = (if lower (Type r) = ''income'' then Amount r else - Amount r)"

text \<open>
  \<open>Series.cumsum()\<close>: the first entry is the first value, every later entry the entry
  before it plus the next value, added left to right in the type of the column.
\<close>

fun cumsum_from :: "('a::plus) \<Rightarrow> 'a list \<Rightarrow> 'a list" where
  "cumsum_from acc [] = []"
| "cumsum_from acc (x # xs) = (acc + x) # cumsum_from (acc + x) xs"

definition cumsum :: "('a::plus) list \<Rightarrow> 'a list" where
  "cumsum xs = (case xs of [] \<Rightarrow> [] | x # rest \<Rightarrow> x # cumsum_from x rest)"

text \<open>\<open>pd.to_datetime(column, errors='coerce')\<close>; \<open>None\<close> is \<open>NaT\<close>.\<close>

definition coerce :: "'d parsed \<Rightarrow> 'd option" where
  "coerce p = (case p of Timestamp t \<Rightarrow> Some t | NaT \<Rightarrow> None | Unparseable \<Rightarrow> None)"

definition to_datetime_coerce :: "(string list \<Rightarrow> 'd parsed list) \<Rightarrow> string list \<Rightarrow> 'd option list" where
  "to_datetime_coerce pd cells = map coerce (pd cells)"

text \<open>\<open>pd.to_datetime(column)\<close>: it raises when a cell fails to parse.\<close>

definition to_datetime_raise :: "(string list \<Rightarrow> 'd parsed list) \<Rightarrow> string list \<Rightarrow> error + 'd option list" where
  "to_datetime_raise pd cells =
     (if list_ex (\<lambda>p. p = Unparseable) (pd cells) then Inl ValueError
      else Inr (map coerce (pd cells)))"

text \<open>
  \<open>df.dropna(subset=['Date'])\<close> on the pairs (Date, SignedAmount).
\<close>

definition dropna_Date :: "('d option \<times> 'a) list \<Rightarrow> ('d \<times> 'a) list" where
  "dropna_Date frame = List.map_filter (\<lambda>(d, s). map_option (\<lambda>t. (t, s)) d) frame"

text \<open>
  \<open>sort_values\<close> is called without \<open>kind\<close>, so it sorts with numpy's default
  \<open>quicksort\<close>, which is not stable. pandas asks numpy for the order of the keys
  (\<open>argsort\<close>: a list of positions) and then takes the rows in that order. The order is a
  parameter; \<open>take_rows\<close> is the taking.
\<close>

definition take_rows :: "nat list \<Rightarrow> 'r list \<Rightarrow> 'r list" where
  "take_rows indexer frame = map (\<lambda>i. frame ! i) indexer"

text \<open>
  What the library promises of the order, whatever the algorithm: it lists every position
  once, and the keys are ascending, respectively descending, along it. Nothing is promised
  about keys that are equal.
\<close>

definition sorts_ascending :: "(('k::linorder) list \<Rightarrow> nat list) \<Rightarrow> bool" where
  "sorts_ascending argsort =
     (\<forall>ks. mset (argsort ks) = mset [0..<length ks] \<and> sorted (map (\<lambda>i. ks ! i) (argsort ks)))"


text \<open>
  \<open>Charts._create_line_chart\<close>, up to the two columns handed to \<open>ax.plot\<close>:
  \<^verbatim>\<open>
  df['SignedAmount'] = df.apply(lambda row: ..., axis=1)
  df['Date'] = pd.to_datetime(df['Date'], errors='coerce')
  df = df.dropna(subset=['Date']).sort_values('Date')
  df['Balance'] = df['SignedAmount'].cumsum()
  \<close>
\<close>

definition create_line_chart ::
  "(string list \<Rightarrow> ('d::linorder) parsed list) \<Rightarrow> ('d list \<Rightarrow> nat list) \<Rightarrow> ('a::{plus,uminus}) row list
     \<Rightarrow> ('d \<times> 'a) list" where
  "create_line_chart pd argsort df =
     (let SignedAmount = map signed_amount df;
          Dates = to_datetime_coerce pd (map Date df);
          frame = dropna_Date (zip Dates SignedAmount);
          sorted_frame = take_rows (argsort (map fst frame)) frame;
          Balance = cumsum (map snd sorted_frame)
      in zip (map fst sorted_frame) Balance)"

text \<open>
  The data part of \<open>PdfExporter._create_time_chart\<close>, after the temporary file is made
  and up to the two columns handed to \<open>ax.plot\<close>:
  \<^verbatim>\<open>
  df_time['Amount'] = df_time['Amount'].astype(float)
  df_time['SignedAmount'] = df_time.apply(lambda row: ..., axis=1)
  df_time['Date'] = pd.to_datetime(df_time['Date'])
  df_time = df_time.sort_values('Date')
  df_time['Balance'] = df_time['SignedAmount'].cumsum()
  \<close>
  The amounts are converted to \<open>float64\<close> first (\<open>astype\<close>, a parameter, into a type \<open>'f\<close>
  of its own). Here \<open>to_datetime\<close> raises on a cell it cannot parse, no row is dropped,
  and \<open>sort_values\<close> puts the rows whose date is \<open>NaT\<close> last, in their original order.
\<close>

definition astype_Amount :: "('a \<Rightarrow> 'f) \<Rightarrow> 'a row \<Rightarrow> 'f row" where
  "astype_Amount astype r =
     \<lparr>Description = Description r, Date = Date r, Type = Type r, Amount = astype (Amount r)\<rparr>"

definition sort_values_Date :: "('d list \<Rightarrow> nat list) \<Rightarrow> ('d option \<times> 'f) list \<Rightarrow> ('d option \<times> 'f) list" where
  "sort_values_Date argsort frame =
     (let dated = dropna_Date frame
      in map (\<lambda>(t, s). (Some t, s)) (take_rows (argsort (map fst dated)) dated)
         @ filter (\<lambda>(d, s). d = None) frame)"

definition time_chart_data ::
  "(string list \<Rightarrow> ('d::linorder) parsed list) \<Rightarrow> ('d list \<Rightarrow> nat list) \<Rightarrow> ('a \<Rightarrow> ('f::{plus,uminus}))
     \<Rightarrow> 'a row list \<Rightarrow> error + ('d option \<times> 'f) list" where
  "time_chart_data pd argsort astype df =
     (let df_time = map (astype_Amount astype) df;
          SignedAmount = map signed_amount df_time in
      case to_datetime_raise pd (map Date df_time) of
        Inl e \<Rightarrow> Inl e
      | Inr Dates \<Rightarrow>
          (let sorted_frame = sort_values_Date argsort (zip Dates SignedAmount);
               Balance = cumsum (map snd sorted_frame)
           in Inr (zip (map fst sorted_frame) Balance)))"

text \<open>
  The rows whose date the parser reads as a timestamp, each as its timestamp and signed
  amount, in the order of the input.
\<close>

definition parsed_frame :: "(string list \<Rightarrow> 'd parsed list) \<Rightarrow> ('a::uminus) row list \<Rightarrow> ('d \<times> 'a) list" where
  "parsed_frame pd rows =
     List.map_filter (\<lambda>(p, r). map_option (\<lambda>t. (t, signed_amount r)) (coerce p))
       (zip (pd (map Date rows)) rows)"

text \<open>
  The balance series in the words of the specification: keep the rows whose date parses,
  sort them ascending by parsed date with a stable sort, and pair each date with the sum
  of the signed amounts up to and including its row, added from the first row on.
\<close>

definition balance_series_spec ::
  "(string list \<Rightarrow> ('d::linorder) parsed list) \<Rightarrow> ('a::{plus,uminus}) row list \<Rightarrow> ('d \<times> 'a) list" where
  "balance_series_spec pd rows =
     (let ordered = sort_key fst (parsed_frame pd rows)
      in map (\<lambda>i. (fst (ordered ! i),
                    foldl (+) (snd (hd ordered)) (map snd (take i (tl ordered)))))
           [0..<length ordered])"

text \<open>
  For the concrete examples: a date written \<open>YYYY-MM-DD\<close> becomes the number \<open>yyyymmdd\<close>,
  the empty string is null, anything else fails to parse; a column of such cells is read
  cell by cell. \<open>pd.to_datetime\<close> reads many more formats; the general theorems hold for
  every parser.
\<close>

definition digit_val :: "char \<Rightarrow> int option" where
  "digit_val c = (let n = (of_char c :: int) in if 48 \<le> n \<and> n \<le> 57 then Some (n - 48) else None)"

fun digits_val :: "int \<Rightarrow> string \<Rightarrow> int option" where
  "digits_val acc [] = Some acc"
| "digits_val acc (c # cs) = (case digit_val c of None \<Rightarrow> None | Some d \<Rightarrow> digits_val (10 * acc + d) cs)"

definition iso_date :: "string \<Rightarrow> int parsed" where
  "iso_date s =
     (if s = [] then NaT
      else if length s = 10 \<and> s ! 4 = CHR ''-'' \<and> s ! 7 = CHR ''-'' then
        (case (digits_val 0 (take 4 s), digits_val 0 (take 2 (drop 5 s)), digits_val 0 (drop 8 s)) of
           (Some y, Some m, Some d) \<Rightarrow>
             if 1 \<le> m \<and> m \<le> 12 \<and> 1 \<le> d \<and> d \<le> 31 then Timestamp (y * 10000 + m * 100 + d)
             else Unparseable
         | _ \<Rightarrow> Unparseable)
      else Unparseable)"

text \<open>
  For the concrete examples, two orders that keep the library's promise: the positions
  sorted by their keys with an insertion sort, and that list reversed.
\<close>

definition insertion_argsort :: "('k::linorder) list \<Rightarrow> nat list" where
  "insertion_argsort ks = map snd (sort_key fst (zip ks [0..<length ks]))"


text \<open>
  \<open>df.groupby('Description')\<close>: one group per distinct description, the group keys in
  ascending order (\<open>groupby\<close> sorts them unless told otherwise), each with its rows in
  the order of the frame.
\<close>

definition groupby_Description :: "'a row list \<Rightarrow> (string \<times> 'a row list) list" where
  "groupby_Description df =
     map (\<lambda>k. (k, filter (\<lambda>r. Description r = k) df)) (sort (remdups (map Description df)))"


text \<open>
  The data part of \<open>PdfExporter._create_pie_chart\<close>:
  \<^verbatim>\<open>
  pie_data = df.groupby('Description')['Amount'].apply(lambda x: x.astype(float).sum())
  pie_data = pie_data.sort_values(ascending=False).head(10)
  \<close>
  Each group is converted to \<open>float64\<close> and summed by \<open>Series.sum\<close>, another routine than
  the one behind \<open>groupby(...).sum()\<close>.
\<close>

definition pie_chart_data ::
  "('a \<Rightarrow> 'f) \<Rightarrow> ('f list \<Rightarrow> 'f) \<Rightarrow> ('f list \<Rightarrow> nat list) \<Rightarrow> 'a row list \<Rightarrow> (string \<times> 'f) list" where
  "pie_chart_data astype series_sum argsort df =
     (let pie_data = map (\<lambda>(k, x). (k, series_sum (map astype (map Amount x)))) (groupby_Description df)
      in take 10 (take_rows (argsort (map snd pie_data)) pie_data))"


section \<open>The grid, the edit history and the main window\<close>

subsection \<open>QTableWidget\<close>

text \<open>
  The table widget of the user interface: one optional header item per column and one
  optional item per cell, each holding its text. \<open>rowCount\<close> and \<open>columnCount\<close> are the
  lengths of the two lists; every row holds \<open>columnCount\<close> cells. \<open>None\<close> is a cell or a
  header for which the widget has no item.
\<close>

record table_widget =
  headers :: "string option list"
  items :: "string option list list"

definition rowCount :: "table_widget \<Rightarrow> nat" where
  "rowCount tw = length (items tw)"

definition columnCount :: "table_widget \<Rightarrow> nat" where
  "columnCount tw = length (headers tw)"

definition item :: "table_widget \<Rightarrow> nat \<Rightarrow> nat \<Rightarrow> string option" where
  "item tw r c =
     (if r < rowCount tw \<and> c < columnCount tw \<and> c < length (items tw ! r) then items tw ! r ! c
      else None)"

text \<open>\<^verbatim>\<open>item.text() if item else ""\<close>\<close>

definition item_text :: "table_widget \<Rightarrow> nat \<Rightarrow> nat \<Rightarrow> string" where
  "item_text tw r c = (case item tw r c of None \<Rightarrow> [] | Some t \<Rightarrow> t)"

text \<open>
  The effect of \<open>QTableWidget.setItem(row, col, QTableWidgetItem(text))\<close> on the cells: the
  item of the cell is replaced; outside the table the call changes nothing.
\<close>

definition set_cell :: "table_widget \<Rightarrow> nat \<Rightarrow> nat \<Rightarrow> string \<Rightarrow> table_widget" where
  "set_cell tw r c v =
     (if r < rowCount tw \<and> c < columnCount tw
      then tw\<lparr>items := (items tw)[r := (items tw ! r)[c := Some v]]\<rparr>
      else tw)"

text \<open>\<open>setRowCount\<close>, \<open>setColumnCount\<close>, \<open>setHorizontalHeaderLabels\<close>: rows and columns
  beyond the new count are removed with their items, new ones come without items.\<close>

definition setRowCount :: "nat \<Rightarrow> table_widget \<Rightarrow> table_widget" where
  "setRowCount n tw =
     tw\<lparr>items := take n (items tw) @ replicate (n - rowCount tw) (replicate (columnCount tw) None)\<rparr>"

definition setColumnCount :: "nat \<Rightarrow> table_widget \<Rightarrow> table_widget" where
  "setColumnCount m tw =
     tw\<lparr>headers := take m (headers tw) @ replicate (m - columnCount tw) None,
        items := map (\<lambda>r. take m r @ replicate (m - length r) None) (items tw)\<rparr>"

definition setHorizontalHeaderLabels :: "string list \<Rightarrow> table_widget \<Rightarrow> table_widget" where
  "setHorizontalHeaderLabels labels tw =
     tw\<lparr>headers := map (\<lambda>(i, h). if i < length labels then Some (labels ! i) else h)
                      (enumerate 0 (headers tw))\<rparr>"

subsection \<open>EditCellCommand and QUndoStack\<close>

record edit_cell_command =
  cmd_row :: nat
  cmd_col :: nat
  old_value :: string
  new_value :: string

text \<open>
  \<open>QUndoStack\<close> is the toolkit's linear undo stack: the commands pushed so far and the
  index of the next command to redo (the commands below it are applied).
\<close>

record undo_stack =
  command_list :: "edit_cell_command list"
  index :: nat

datatype icon = Information | Warning | Critical

record message =
  title :: string
  msg_text :: string
  icon :: icon
  informative_text :: string

text \<open>A CSV file as \<open>pandas\<close> reads and writes it: the column labels and the rows, every
  cell as the text \<open>str\<close> gives for it.\<close>

record csv_frame =
  csv_columns :: "string list"
  csv_rows :: "string list list"

text \<open>
  The state of \<open>MainWindow\<close>, together with that of its \<open>CsvReader\<close> (\<open>current_filename\<close>)
  and with what the window has shown and written: the message boxes, oldest first, the
  status bar text, and the calls of \<open>DataFrame.to_csv\<close>, oldest first.
\<close>

record main_window =
  tableWidget :: table_widget
  undo_stack :: undo_stack
  ignore_change :: bool
  last_cell :: "(nat \<times> nat) option"
  last_value :: "string option"
  current_filename :: "string option"
  shown :: "message list"
  status :: string
  to_csv_calls :: "(string \<times> csv_frame) list"

text \<open>
  A call returns, or raises an exception that propagates to its caller; either way it
  leaves a state behind.
\<close>

datatype ('v, 's) outcome = Returned 'v 's | Raised error 's

definition state_of :: "('v, 's) outcome \<Rightarrow> 's" where
  "state_of out = (case out of Returned v s \<Rightarrow> s | Raised e s \<Rightarrow> s)"

definition Message_show :: "message \<Rightarrow> main_window \<Rightarrow> main_window" where
  "Message_show m w = w\<lparr>shown := shown w @ [m]\<rparr>"

definition show_status :: "string \<Rightarrow> main_window \<Rightarrow> main_window" where
  "show_status m w = w\<lparr>status := m\<rparr>"

text \<open>\<open>MainWindow._on_cell_clicked\<close>\<close>

definition on_cell_clicked :: "main_window \<Rightarrow> nat \<Rightarrow> nat \<Rightarrow> main_window" where
  "on_cell_clicked w r c =
     w\<lparr>last_cell := Some (r, c), last_value := Some (item_text (tableWidget w) r c)\<rparr>"

text \<open>
  The table's \<open>itemChanged\<close> signal is connected to \<open>MainWindow._on_item_changed\<close>, and
  \<open>setItem\<close> emits it, so the four functions call each other:
  \<^item> \<open>on_item_changed\<close> is the slot: it returns at once under \<open>_ignore_change\<close>, else it
    builds an \<open>EditCellCommand\<close> from the item's text and the value remembered at the last
    click, and pushes it;
  \<^item> \<open>push\<close> is \<open>QUndoStack.push\<close>: it runs the command's \<open>redo\<close>, drops the commands
    above the index, appends the command and advances the index;
  \<^item> \<open>cmd_redo\<close> is \<open>EditCellCommand.redo\<close>: flag on, \<open>setItem\<close> with the new value, flag off;
  \<^item> \<open>setItem\<close> is \<open>QTableWidget.setItem\<close> with a fresh item: it replaces the cell's item
    and emits \<open>itemChanged\<close> for it.
  The toolkit call is not expected to fail; \<open>raises r c\<close> says that \<open>setItem\<close> on the cell
  does raise, so that the exit paths on which it fails can be followed. The stack is the
  toolkit's own code: when the command it runs raises, the stack still finishes its step
  (it appends the command and moves the index), and the exception reaches the caller.
  \<open>_last_value\<close> is set whenever \<open>_last_cell\<close> is.
\<close>

function on_item_changed :: "(nat \<Rightarrow> nat \<Rightarrow> bool) \<Rightarrow> main_window \<Rightarrow> nat \<Rightarrow> nat \<Rightarrow> (unit, main_window) outcome"
  and push :: "(nat \<Rightarrow> nat \<Rightarrow> bool) \<Rightarrow> main_window \<Rightarrow> edit_cell_command \<Rightarrow> (unit, main_window) outcome"
  and cmd_redo :: "(nat \<Rightarrow> nat \<Rightarrow> bool) \<Rightarrow> main_window \<Rightarrow> edit_cell_command \<Rightarrow> (unit, main_window) outcome"
  and setItem :: "(nat \<Rightarrow> nat \<Rightarrow> bool) \<Rightarrow> main_window \<Rightarrow> nat \<Rightarrow> nat \<Rightarrow> string \<Rightarrow> (unit, main_window) outcome"
where
  "on_item_changed raises w r c =
     (if ignore_change w then Returned () w
      else
        let new_value = item_text (tableWidget w) r c;
            old_value = (if last_cell w = Some (r, c)
                         then (case last_value w of Some v \<Rightarrow> v | None \<Rightarrow> [])
                         else []);
            command = \<lparr>cmd_row = r, cmd_col = c, old_value = old_value, new_value = new_value\<rparr>
        in push raises w command)"
| "push raises w cmd =
     (case cmd_redo raises w cmd of
        Raised e w' \<Rightarrow>
          Raised e
            (w'\<lparr>undo_stack :=
                 \<lparr>command_list = take (index (undo_stack w')) (command_list (undo_stack w')) @ [cmd],
                  index = index (undo_stack w') + 1\<rparr>\<rparr>)
      | Returned u w' \<Rightarrow>
          Returned ()
            (w'\<lparr>undo_stack :=
                 \<lparr>command_list = take (index (undo_stack w')) (command_list (undo_stack w')) @ [cmd],
                  index = index (undo_stack w') + 1\<rparr>\<rparr>))"
| "cmd_redo raises w cmd =
     (case setItem raises (w\<lparr>ignore_change := True\<rparr>) (cmd_row cmd) (cmd_col cmd) (new_value cmd) of
        Raised e w' \<Rightarrow> Raised e w'
      | Returned u w' \<Rightarrow> Returned () (w'\<lparr>ignore_change := False\<rparr>))"
| "setItem raises w r c v =
     (if raises r c then Raised RuntimeError w
      else if r < rowCount (tableWidget w) \<and> c < columnCount (tableWidget w)
      then on_item_changed raises (w\<lparr>tableWidget := set_cell (tableWidget w) r c v\<rparr>) r c
      else Returned () w)"
  by pat_completeness auto
termination
  by (relation "measure (\<lambda>x. case x of
        Inl (Inl (raises, w, r, c)) \<Rightarrow> if ignore_change w then 0 else 4
      | Inl (Inr (raises, w, cmd)) \<Rightarrow> 3
      | Inr (Inl (raises, w, cmd)) \<Rightarrow> 2
      | Inr (Inr (raises, w, r, c, v)) \<Rightarrow> if ignore_change w then 1 else 5)")
     auto


text \<open>
  The user edits a cell through the grid: the editor writes the text into the cell's item
  (making one if the cell has none), and the item reports the change unless it already
  held that text. Outside the table there is no cell to edit.
\<close>

definition user_edit :: "(nat \<Rightarrow> nat \<Rightarrow> bool) \<Rightarrow> main_window \<Rightarrow> nat \<Rightarrow> nat \<Rightarrow> string \<Rightarrow> (unit, main_window) outcome" where
  "user_edit raises w r c txt =
     (if r < rowCount (tableWidget w) \<and> c < columnCount (tableWidget w)
      then (if item (tableWidget w) r c = Some txt then Returned () w
            else on_item_changed raises (w\<lparr>tableWidget := set_cell (tableWidget w) r c txt\<rparr>) r c)
      else Returned () w)"

text \<open>\<open>EditCellCommand.undo\<close>: flag on, \<open>setItem\<close> with the old value, flag off.\<close>

definition cmd_undo :: "(nat \<Rightarrow> nat \<Rightarrow> bool) \<Rightarrow> main_window \<Rightarrow> edit_cell_command \<Rightarrow> (unit, main_window) outcome" where
  "cmd_undo raises w cmd =
     (case setItem raises (w\<lparr>ignore_change := True\<rparr>) (cmd_row cmd) (cmd_col cmd) (old_value cmd) of
        Raised e w' \<Rightarrow> Raised e w'
      | Returned u w' \<Rightarrow> Returned () (w'\<lparr>ignore_change := False\<rparr>))"

text \<open>
  \<open>QUndoStack.undo\<close> and \<open>QUndoStack.redo\<close>: nothing to do at the bottom, respectively at
  the top, of the stack; else the command below, respectively at, the index runs and the
  index moves, also when the command raised. The index never exceeds the number of
  commands.
\<close>

definition QUndoStack_undo :: "(nat \<Rightarrow> nat \<Rightarrow> bool) \<Rightarrow> main_window \<Rightarrow> (unit, main_window) outcome" where
  "QUndoStack_undo raises w =
     (let s = undo_stack w in
      if index s = 0 then Returned () w
      else
        (case cmd_undo raises w (command_list s ! (index s - 1)) of
           Raised e w' \<Rightarrow>
             Raised e (w'\<lparr>undo_stack := (undo_stack w')\<lparr>index := index (undo_stack w') - 1\<rparr>\<rparr>)
         | Returned u w' \<Rightarrow>
             Returned () (w'\<lparr>undo_stack := (undo_stack w')\<lparr>index := index (undo_stack w') - 1\<rparr>\<rparr>)))"

definition QUndoStack_redo :: "(nat \<Rightarrow> nat \<Rightarrow> bool) \<Rightarrow> main_window \<Rightarrow> (unit, main_window) outcome" where
  "QUndoStack_redo raises w =
     (let s = undo_stack w in
      if index s = length (command_list s) then Returned () w
      else
        (case cmd_redo raises w (command_list s ! index s) of
           Raised e w' \<Rightarrow>
             Raised e (w'\<lparr>undo_stack := (undo_stack w')\<lparr>index := index (undo_stack w') + 1\<rparr>\<rparr>)
         | Returned u w' \<Rightarrow>
             Returned () (w'\<lparr>undo_stack := (undo_stack w')\<lparr>index := index (undo_stack w') + 1\<rparr>\<rparr>)))"

text \<open>
  \<open>MainWindow.undo\<close> and \<open>MainWindow.redo\<close>:
  \<^verbatim>\<open>
  self._ignore_change = True
  self.undo_stack.undo()
  self._ignore_change = False
  self._show_status("Undo", 2000)
  \<close>
\<close>

definition undo :: "(nat \<Rightarrow> nat \<Rightarrow> bool) \<Rightarrow> main_window \<Rightarrow> (unit, main_window) outcome" where
  "undo raises w =
     (case QUndoStack_undo raises (w\<lparr>ignore_change := True\<rparr>) of
        Raised e w' \<Rightarrow> Raised e w'
      | Returned u w' \<Rightarrow> Returned () (show_status ''Undo'' (w'\<lparr>ignore_change := False\<rparr>)))"

definition redo :: "(nat \<Rightarrow> nat \<Rightarrow> bool) \<Rightarrow> main_window \<Rightarrow> (unit, main_window) outcome" where
  "redo raises w =
     (case QUndoStack_redo raises (w\<lparr>ignore_change := True\<rparr>) of
        Raised e w' \<Rightarrow> Raised e w'
      | Returned u w' \<Rightarrow> Returned () (show_status ''Redo'' (w'\<lparr>ignore_change := False\<rparr>)))"

subsection \<open>CsvReader\<close>

text \<open>\<^verbatim>\<open>all(col in df.columns for col in required_columns)\<close>\<close>

definition check_csv_columns :: "csv_frame \<Rightarrow> bool" where
  "check_csv_columns df =
     list_all (\<lambda>col. col \<in> set (csv_columns df)) [''Description'', ''Date'', ''Type'', ''Amount'']"

text \<open>The loop of \<open>CsvReader.read\<close> over the cells of the frame, row by row.\<close>

definition cells_of :: "csv_frame \<Rightarrow> (nat \<times> nat \<times> string) list" where
  "cells_of df =
     concat (map (\<lambda>(r, cells). map (\<lambda>(c, v). (r, c, v)) (enumerate 0 cells)) (enumerate 0 (csv_rows df)))"

fun fill_table :: "(nat \<Rightarrow> nat \<Rightarrow> bool) \<Rightarrow> (nat \<times> nat \<times> string) list \<Rightarrow> main_window \<Rightarrow> (unit, main_window) outcome" where
  "fill_table raises [] w = Returned () w"
| "fill_table raises ((r, c, v) # cells) w =
     (case setItem raises w r c v of
        Raised e w' \<Rightarrow> Raised e w'
      | Returned u w' \<Rightarrow> fill_table raises cells w')"

text \<open>
  \<open>CsvReader.read\<close>. The file dialog and the file system are outside the program:
  \<open>filename\<close> is what the dialog returns (empty when the user cancels), \<open>read_csv\<close> is
  \<open>pd.read_csv\<close>, which gives a frame or raises with a message.
\<close>

definition read :: "(nat \<Rightarrow> nat \<Rightarrow> bool) \<Rightarrow> string \<Rightarrow> (string \<Rightarrow> string + csv_frame) \<Rightarrow> main_window \<Rightarrow> (unit, main_window) outcome" where
  "read raises filename read_csv w =
     (if filename = [] then Returned () w
      else
        let w1 = w\<lparr>current_filename := Some filename\<rparr> in
        (case read_csv filename of
           Inl e \<Rightarrow>
             Returned ()
               (Message_show \<lparr>title = ''Error'', msg_text = ''Failed to read the CSV file.'',
                              icon = Critical, informative_text = e\<rparr> w1)
         | Inr df \<Rightarrow>
             if \<not> check_csv_columns df then
               Returned ()
                 (Message_show
                    \<lparr>title = ''Error'',
                     msg_text = ''The CSV file does not have the required columns. Please check the User Guide for more information.'',
                     icon = Warning,
                     informative_text = ''Required columns: Description, Date, Type, Amount''\<rparr> w1)
             else
               let table = setHorizontalHeaderLabels (csv_columns df)
                             (setColumnCount (length (csv_columns df))
                               (setRowCount (length (csv_rows df)) (tableWidget w1)))
               in fill_table raises (cells_of df) (w1\<lparr>tableWidget := table\<rparr>)))"

text \<open>\<open>MainWindow.import_csv\<close>\<close>

definition import_csv :: "(nat \<Rightarrow> nat \<Rightarrow> bool) \<Rightarrow> string \<Rightarrow> (string \<Rightarrow> string + csv_frame) \<Rightarrow> main_window \<Rightarrow> (unit, main_window) outcome" where
  "import_csv raises filename read_csv w =
     (case read raises filename read_csv w of
        Raised e w' \<Rightarrow> Raised e w'
      | Returned u w' \<Rightarrow> Returned () (show_status ''CSV Imported'' w'))"

text \<open>Decimal digits of a natural number, for \<^verbatim>\<open>f"Column {col+1}"\<close>.\<close>

fun str_nat :: "nat \<Rightarrow> string" where
  "str_nat n =
     (if n < 10 then [char_of (48 + n)]
      else str_nat (n div 10) @ [char_of (48 + n mod 10)])"

text \<open>\<open>CsvReader.get_table_data\<close>\<close>

definition get_table_data :: "table_widget \<Rightarrow> csv_frame" where
  "get_table_data table =
     \<lparr>csv_columns =
        map (\<lambda>col. case headers table ! col of
                      Some t \<Rightarrow> t
                    | None \<Rightarrow> ''Column '' @ str_nat (col + 1))
            [0..<columnCount table],
      csv_rows =
        map (\<lambda>r. map (\<lambda>c. item_text table r c) [0..<columnCount table]) [0..<rowCount table]\<rparr>"

text \<open>\<open>df.to_csv(filename, index=False)\<close>, recorded as a call.\<close>

definition to_csv :: "string \<Rightarrow> csv_frame \<Rightarrow> main_window \<Rightarrow> main_window" where
  "to_csv filename df w = w\<lparr>to_csv_calls := to_csv_calls w @ [(filename, df)]\<rparr>"

text \<open>\<open>CsvReader.save_as\<close>; \<open>filename\<close> is what the save dialog returns.\<close>

definition save_as :: "string \<Rightarrow> main_window \<Rightarrow> main_window" where
  "save_as filename w =
     (if filename = [] then w
      else (to_csv filename (get_table_data (tableWidget w)) w)\<lparr>current_filename := Some filename\<rparr>)"

text \<open>\<open>CsvReader.quick_save\<close>; \<open>if self.current_filename\<close> fails for \<open>None\<close> and for the
  empty string.\<close>

definition quick_save :: "string \<Rightarrow> main_window \<Rightarrow> main_window" where
  "quick_save save_dialog w =
     (case current_filename w of
        Some filename \<Rightarrow>
          if filename \<noteq> [] then to_csv filename (get_table_data (tableWidget w)) w
          else save_as save_dialog w
      | None \<Rightarrow> save_as save_dialog w)"

text \<open>\<open>MainWindow.save\<close>\<close>

definition save :: "string \<Rightarrow> main_window \<Rightarrow> main_window" where
  "save save_dialog w = show_status ''File saved'' (quick_save save_dialog w)"


subsection \<open>MainWindow._table_to_dataframe\<close>

text \<open>
  A cell of a DataFrame built from the grid: text, a number, or the missing value \<open>NaN\<close>
  that \<open>pd.to_numeric(..., errors='coerce')\<close> puts where the text is not a number.
  \<open>pd.to_numeric\<close> is a parameter: \<open>None\<close> where it cannot read the text as a number.
\<close>

datatype cell = Text string | Number rat | NaN

record dataframe =
  columns :: "string list"
  data :: "cell list list"

fun index_of :: "'a \<Rightarrow> 'a list \<Rightarrow> nat" where
  "index_of x [] = 0"
| "index_of x (y # ys) = (if x = y then 0 else Suc (index_of x ys))"

text \<open>\<open>df.dropna(subset=...)\<close>: a row goes when one of its cells under a label of the
  subset is missing.\<close>

definition dropna :: "string list \<Rightarrow> dataframe \<Rightarrow> dataframe" where
  "dropna labels df =
     df\<lparr>data := filter (\<lambda>r. list_all (\<lambda>(label, c). label \<notin> set labels \<or> c \<noteq> NaN) (zip (columns df) r))
                   (data df)\<rparr>"

text \<open>
  \<^verbatim>\<open>
  rows = tableWidget.rowCount(); cols = tableWidget.columnCount()
  if rows == 0: return None
  headers = [tableWidget.horizontalHeaderItem(i).text() for i in range(cols)]
  data = [[tableWidget.item(row, col).text() if tableWidget.item(row, col) else ""
           for col in range(cols)] for row in range(rows)]
  try:
      df = pd.DataFrame(data, columns=headers)
      df['Amount'] = pd.to_numeric(df['Amount'], errors='coerce')
      df = df.dropna(subset=['Amount', 'Date', 'Type'])
      if df.empty: return None
      return df
  except Exception as e: return None
  \<close>
  A column without a header item makes \<open>.text()\<close> raise before the \<open>try\<close>. Inside it,
  \<open>df['Amount']\<close> raises when no column has that label, \<open>pd.to_numeric\<close> raises when
  several have it (it is handed a frame), and \<open>dropna\<close> raises when \<open>Date\<close> or \<open>Type\<close> is
  no label of the frame; all three end in \<open>None\<close>.
\<close>

definition table_to_dataframe :: "(string \<Rightarrow> rat option) \<Rightarrow> table_widget \<Rightarrow> error + dataframe option" where
  "table_to_dataframe to_numeric table =
     (let rows = rowCount table; cols = columnCount table in
      if rows = 0 then Inr None
      else if list_ex (\<lambda>h. h = None) (headers table) then Inl AttributeError
      else
        let labels = map (\<lambda>h. case h of Some t \<Rightarrow> t | None \<Rightarrow> []) (headers table);
            texts = map (\<lambda>row. map (\<lambda>col. item_text table row col) [0..<cols]) [0..<rows]
        in
        if count_list labels ''Amount'' \<noteq> 1 then Inr None
        else
          let i = index_of ''Amount'' labels;
              df = \<lparr>columns = labels,
                    data = map (\<lambda>r. (map Text r)[i := (case to_numeric (r ! i) of
                                                            Some v \<Rightarrow> Number v
                                                          | None \<Rightarrow> NaN)]) texts\<rparr>
          in
          if ''Date'' \<notin> set labels \<or> ''Type'' \<notin> set labels then Inr None
          else
            let df' = dropna [''Amount'', ''Date'', ''Type''] df
            in if data df' = [] then Inr None else Inr (Some df'))"

text \<open>The texts of the grid, row by row, as \<open>_table_to_dataframe\<close> reads them.\<close>

definition grid_texts :: "table_widget \<Rightarrow> string list list" where
  "grid_texts table =
     map (\<lambda>row. map (\<lambda>col. item_text table row col) [0..<columnCount table]) [0..<rowCount table]"

text \<open>
  A number reader for the concrete examples: a non-empty string of decimal digits is the
  number it writes, anything else is not a number. \<open>pd.to_numeric\<close> reads more (signs,
  fractions, exponents); the general theorems hold for every reader.
\<close>

definition digits_to_numeric :: "string \<Rightarrow> rat option" where
  "digits_to_numeric s = (if s = [] then None else map_option of_int (digits_val 0 s))"

section \<open>PdfExporter\<close>

datatype flowable =
  Paragraph string string
| Spacer nat nat
| Table "string list list"
| Image string nat nat

text \<open>
  What the exporter touches: the temporary files that exist, the number of \<open>mkstemp\<close>
  calls so far (which names the next file), the message boxes shown and the documents
  built, oldest first.
\<close>

record exporter =
  tmp_files :: "string list"
  tmp_count :: nat
  boxes :: "(icon \<times> string \<times> string) list"
  documents :: "(string \<times> flowable list) list"

text \<open>
  The libraries the exporter calls: the date parser of pandas, the order numpy gives the
  dates, the conversion to \<open>float64\<close>, \<open>Series.sum\<close>, the descending order of the sums,
  whether matplotlib raises on a pie series, whether and how reportlab's \<open>doc.build\<close>
  fails, the rendering \<^verbatim>\<open>f"{float(x):.2f}"\<close> of an amount, and \<open>str\<close> of an exception.
\<close>

record ('d, 'a, 'f) libraries =
  to_datetime :: "string list \<Rightarrow> 'd parsed list"
  argsort_dates :: "'d list \<Rightarrow> nat list"
  astype_float :: "'a \<Rightarrow> 'f"
  series_sum :: "'f list \<Rightarrow> 'f"
  argsort_sums :: "'f list \<Rightarrow> nat list"
  pie_raises :: "(string \<times> 'f) list \<Rightarrow> bool"
  build :: "string \<Rightarrow> flowable list \<Rightarrow> error option"
  format_amount :: "'a \<Rightarrow> string"
  str_exception :: "error \<Rightarrow> string"

text \<open>\<open>tempfile.mkstemp(suffix=".png")\<close> followed by \<open>os.close(fd)\<close>: a new, empty file.\<close>

definition mkstemp :: "exporter \<Rightarrow> string \<times> exporter" where
  "mkstemp st =
     (let path = ''/tmp/tmp'' @ str_nat (tmp_count st) @ ''.png''
      in (path, st\<lparr>tmp_files := tmp_files st @ [path], tmp_count := tmp_count st + 1\<rparr>))"

definition show_message :: "string \<Rightarrow> string \<Rightarrow> icon \<Rightarrow> exporter \<Rightarrow> exporter" where
  "show_message t txt ic st = st\<lparr>boxes := boxes st @ [(ic, t, txt)]\<rparr>"

text \<open>\<open>PdfExporter._create_pie_chart\<close>: the file first, then the series and the plot.\<close>

definition pdf_create_pie_chart :: "('d, 'a, 'f) libraries \<Rightarrow> 'a row list \<Rightarrow> exporter \<Rightarrow> (string, exporter) outcome" where
  "pdf_create_pie_chart L df st =
     (let (path, st1) = mkstemp st;
          pie_data = pie_chart_data (astype_float L) (series_sum L) (argsort_sums L) df
      in if pie_raises L pie_data then Raised ValueError st1 else Returned path st1)"

text \<open>\<open>PdfExporter._create_time_chart\<close>: the file first, then the series and the plot.\<close>

definition pdf_create_time_chart ::
  "('d::linorder, 'a, 'f::{plus,uminus}) libraries \<Rightarrow> 'a row list \<Rightarrow> exporter \<Rightarrow> (string, exporter) outcome" where
  "pdf_create_time_chart L df st =
     (let (path, st1) = mkstemp st
      in case time_chart_data (to_datetime L) (argsort_dates L) (astype_float L) df of
           Inl e \<Rightarrow> Raised e st1
         | Inr series \<Rightarrow> Returned path st1)"

text \<open>\<open>PdfExporter._create_chart_images\<close>\<close>

definition create_chart_images ::
  "('d::linorder, 'a, 'f::{plus,uminus}) libraries \<Rightarrow> 'a row list \<Rightarrow> exporter
     \<Rightarrow> (string \<times> string, exporter) outcome" where
  "create_chart_images L df st =
     (case pdf_create_pie_chart L df st of
        Raised e st1 \<Rightarrow> Raised e st1
      | Returned pie_path st1 \<Rightarrow>
          (case pdf_create_time_chart L df st1 of
             Raised e st2 \<Rightarrow> Raised e st2
           | Returned time_path st2 \<Rightarrow> Returned (pie_path, time_path) st2))"

text \<open>\<open>PdfExporter._create_table\<close> and \<open>PdfExporter._create_pdf_elements\<close>\<close>

definition create_table :: "('d, 'a, 'f) libraries \<Rightarrow> 'a row list \<Rightarrow> flowable" where
  "create_table L df =
     Table ([''Description'', ''Date'', ''Type'', ''Amount'']
            # map (\<lambda>r. [Description r, Date r, Type r, format_amount L (Amount r)]) df)"

definition create_pdf_elements :: "('d, 'a, 'f) libraries \<Rightarrow> 'a row list \<Rightarrow> string \<Rightarrow> string \<Rightarrow> flowable list" where
  "create_pdf_elements L df pie_path time_path =
     [Paragraph ''Personal Finance Data'' ''Title'',
      Spacer 1 12,
      create_table L df,
      Spacer 1 24,
      Paragraph ''Top 10 Expenses/Incomes per Description'' ''Heading2'',
      Image pie_path 350 350,
      Spacer 1 24,
      Paragraph ''Money Over Time'' ''Heading2'',
      Image time_path 450 250]"

text \<open>\<open>PdfExporter._cleanup_temp_files\<close>: every listed path that exists is removed.\<close>

definition cleanup_temp_files :: "string list \<Rightarrow> exporter \<Rightarrow> exporter" where
  "cleanup_temp_files paths st = st\<lparr>tmp_files := filter (\<lambda>p. p \<notin> set paths) (tmp_files st)\<rparr>"

text \<open>
  \<open>PdfExporter.export\<close>; \<open>file_path\<close> is what the save dialog returns.
  \<^verbatim>\<open>
  if not self._check_data(df): return
  file_path = self._get_save_path()
  if not file_path: return
  pie_path, time_path = self._create_chart_images(df)
  try:
      elements = self._create_pdf_elements(df, pie_path, time_path)
      self._build_pdf(file_path, elements)
      self._show_message("Success", ...)
  except Exception as e:
      self._show_message("Error", f"Failed to export PDF: {e}", ...)
  finally:
      self._cleanup_temp_files([pie_path, time_path])
  \<close>
\<close>

definition export ::
  "('d::linorder, 'a, 'f::{plus,uminus}) libraries \<Rightarrow> string \<Rightarrow> 'a row list \<Rightarrow> exporter
     \<Rightarrow> (unit, exporter) outcome" where
  "export L file_path df st =
     (if df = [] then Returned () (show_message ''Error'' ''No data to export.'' Warning st)
      else if file_path = [] then Returned () st
      else
        (case create_chart_images L df st of
           Raised e st1 \<Rightarrow> Raised e st1
         | Returned (pie_path, time_path) st1 \<Rightarrow>
             let elements = create_pdf_elements L df pie_path time_path;
                 st2 = (case build L file_path elements of
                          None \<Rightarrow>
                            show_message ''Success'' ''PDF exported successfully!'' Information
                              (st1\<lparr>documents := documents st1 @ [(file_path, elements)]\<rparr>)
                        | Some e \<Rightarrow>
                            show_message ''Error'' (''Failed to export PDF: '' @ str_exception L e) Critical st1)
             in Returned () (cleanup_temp_files [pie_path, time_path] st2)))"


section \<open>A loaded window, for the concrete examples\<close>

text \<open>
  The window after \<open>old.csv\<close> with two transactions has been imported and the edit
  history is empty: no cell has been clicked yet.
\<close>

definition example_table :: table_widget where
  "example_table =
     \<lparr>headers = [Some ''Description'', Some ''Date'', Some ''Type'', Some ''Amount''],
      items = [[Some ''Salary'', Some ''2024-01-01'', Some ''Income'', Some ''100''],
               [Some ''Rent'', Some ''2024-01-03'', Some ''Expense'', Some ''30'']]\<rparr>"

definition example_window :: main_window where
  "example_window =
     \<lparr>tableWidget = example_table,
      undo_stack = \<lparr>command_list = [], index = 0\<rparr>,
      ignore_change = False,
      last_cell = None,
      last_value = None,
      current_filename = Some ''old.csv'',
      shown = [],
      status = ''Ready'',
      to_csv_calls = []\<rparr>"

text \<open>No \<open>setItem\<close> call raises: the toolkit as it behaves.\<close>

definition never :: "nat \<Rightarrow> nat \<Rightarrow> bool" where
  "never r c = False"

text \<open>Every \<open>setItem\<close> call raises.\<close>

definition always :: "nat \<Rightarrow> nat \<Rightarrow> bool" where
  "always r c = True"

section \<open>Properties of the ledger derivation\<close>

subsection \<open>Signed amounts\<close>

lemma to_lower_income_letters:
  "to_lower c = CHR ''i'' \<longleftrightarrow> c = CHR ''i'' \<or> c = CHR ''I''"
  "to_lower c = CHR ''n'' \<longleftrightarrow> c = CHR ''n'' \<or> c = CHR ''N''"
  "to_lower c = CHR ''c'' \<longleftrightarrow> c = CHR ''c'' \<or> c = CHR ''C''"
  "to_lower c = CHR ''o'' \<longleftrightarrow> c = CHR ''o'' \<or> c = CHR ''O''"
  "to_lower c = CHR ''m'' \<longleftrightarrow> c = CHR ''m'' \<or> c = CHR ''M''"
  "to_lower c = CHR ''e'' \<longleftrightarrow> c = CHR ''e'' \<or> c = CHR ''E''"
  by (simp_all add: to_lower_def)

lemma lower_income:
  "lower t = ''income'' \<longleftrightarrow> list_all2 (\<lambda>c (l, u). c = l \<or> c = u) t (zip ''income'' ''INCOME'')"
  by (simp add: lower_def map_eq_Cons_conv list_all2_Cons2 to_lower_income_letters)

lemma lower_Income: "lower ''Income'' = ''income''"
  by code_simp

lemma lower_Expense: "lower ''Expense'' \<noteq> ''income''"
  by code_simp

text \<open>
  Claim C2. The signed amount of a row is its amount when the type spells \<open>income\<close> in
  any mix of upper and lower case, letter by letter, and the negated amount for every
  other type text, \<open>Expense\<close> and free text alike.
\<close>

theorem signed_amount_by_type:
  "signed_amount r =
     (if list_all2 (\<lambda>c (l, u). c = l \<or> c = u) (Type r) (zip ''income'' ''INCOME'')
      then Amount r else - Amount r)"
  unfolding signed_amount_def lower_income ..

theorem signed_amount_by_type_witness:
  "signed_amount \<lparr>Description = ''Salary'', Date = ''2024-01-01'', Type = ''InCoMe'', Amount = 100\<rparr> = (100 :: rat)
   \<and> signed_amount \<lparr>Description = ''Rent'', Date = ''2024-01-03'', Type = ''Expense'', Amount = 30\<rparr> = (- 30 :: rat)
   \<and> signed_amount \<lparr>Description = ''Misc'', Date = ''2024-01-03'', Type = ''incomes'', Amount = 7\<rparr> = (- 7 :: rat)"
  using signed_amount_by_type [of "\<lparr>Description = ''Salary'', Date = ''2024-01-01'', Type = ''InCoMe'', Amount = 100 :: rat\<rparr>"]
        signed_amount_by_type [of "\<lparr>Description = ''Rent'', Date = ''2024-01-03'', Type = ''Expense'', Amount = 30 :: rat\<rparr>"]
        signed_amount_by_type [of "\<lparr>Description = ''Misc'', Date = ''2024-01-03'', Type = ''incomes'', Amount = 7 :: rat\<rparr>"]
  by simp

subsection \<open>Orders and running sums\<close>

lemma indexer_bound:
  assumes "mset indexer = mset [0..<n]" and "i \<in> set indexer"
  shows "i < n"
proof -
  have "set indexer = set [0..<n]"
    using assms(1) by (rule mset_eq_setD)
  then show ?thesis
    using assms(2) by simp
qed

lemma mset_take_rows:
  assumes "mset indexer = mset [0..<length frame]"
  shows "mset (take_rows indexer frame) = mset frame"
proof -
  have "mset (take_rows indexer frame) = image_mset (\<lambda>i. frame ! i) (mset indexer)"
    by (simp add: take_rows_def)
  also have "\<dots> = mset (map (\<lambda>i. frame ! i) [0..<length frame])"
    by (simp add: assms)
  also have "\<dots> = mset frame"
    by (simp add: map_nth)
  finally show ?thesis .
qed

lemma map_fst_take_rows:
  assumes "mset indexer = mset [0..<length frame]"
  shows "map fst (take_rows indexer frame) = map (\<lambda>i. map fst frame ! i) indexer"
  using indexer_bound[OF assms] by (simp add: take_rows_def)

lemma take_rows_ascending:
  assumes "sorts_ascending argsort"
  shows "mset (take_rows (argsort (map fst frame)) frame) = mset frame"
    and "sorted (map fst (take_rows (argsort (map fst frame)) frame))"
proof -
  have perm: "mset (argsort (map fst frame)) = mset [0..<length frame]"
    and asc: "sorted (map (\<lambda>i. map fst frame ! i) (argsort (map fst frame)))"
    using assms[unfolded sorts_ascending_def, rule_format, of "map fst frame"] by simp_all
  show "mset (take_rows (argsort (map fst frame)) frame) = mset frame"
    using perm by (rule mset_take_rows)
  show "sorted (map fst (take_rows (argsort (map fst frame)) frame))"
    using asc by (simp only: map_fst_take_rows[OF perm])
qed


lemma insertion_argsort_ascending: "sorts_ascending insertion_argsort"
  unfolding sorts_ascending_def
proof (intro allI conjI)
  fix ks :: "'a list"
  let ?L = "sort_key fst (zip ks [0..<length ks])"
  have "mset (map snd ?L) = image_mset snd (mset (zip ks [0..<length ks]))"
    by (simp only: mset_map mset_sort)
  also have "\<dots> = mset (map snd (zip ks [0..<length ks]))"
    by (simp only: mset_map)
  also have "\<dots> = mset [0..<length ks]"
    by (simp only: map_snd_zip length_upt diff_zero)
  finally show "mset (insertion_argsort ks) = mset [0..<length ks]"
    by (simp only: insertion_argsort_def)
  have "ks ! snd p = fst p" if "p \<in> set ?L" for p
    using that by (auto simp: set_zip)
  then have "map (\<lambda>p. ks ! snd p) ?L = map fst ?L"
    by (intro map_cong refl)
  moreover have "sorted (map fst ?L)"
    by (rule sorted_sort_key)
  ultimately show "sorted (map (\<lambda>i. ks ! i) (insertion_argsort ks))"
    by (simp only: insertion_argsort_def map_map o_def)
qed


lemma frame_parsed:
  "dropna_Date (zip (to_datetime_coerce pd (map Date df)) (map signed_amount df)) = parsed_frame pd df"
proof -
  have "dropna_Date (zip (map coerce ps) (map signed_amount rs))
        = List.map_filter (\<lambda>(p, r). map_option (\<lambda>t. (t, signed_amount r)) (coerce p)) (zip ps rs)"
    for ps :: "'a parsed list" and rs :: "'b row list"
    by (induction ps rs rule: list_induct2')
       (simp_all add: dropna_Date_def List.map_filter_simps split: option.splits)
  then show ?thesis
    by (simp add: to_datetime_coerce_def parsed_frame_def)
qed

lemma cumsum_from_foldl:
  "cumsum_from a xs = map (\<lambda>i. foldl (+) a (take (Suc i) xs)) [0..<length xs]"
proof (induction xs arbitrary: a)
  case Nil
  then show ?case by simp
next
  case (Cons x xs)
  have "map (\<lambda>i. foldl (+) a (take (Suc i) (x # xs))) [0..<length (x # xs)]
      = (a + x) # map (\<lambda>i. foldl (+) a (take (Suc i) (x # xs))) (map Suc [0..<length xs])"
    by (simp add: upt_conv_Cons map_Suc_upt del: upt_Suc)
  then show ?case
    by (simp add: Cons.IH o_def)
qed

lemma cumsum_foldl:
  "cumsum xs = map (\<lambda>i. foldl (+) (hd xs) (take i (tl xs))) [0..<length xs]"
proof (cases xs)
  case Nil
  then show ?thesis by (simp add: cumsum_def)
next
  case (Cons x rest)
  have "map (\<lambda>i. foldl (+) x (take i rest)) [0..<Suc (length rest)]
      = x # map (\<lambda>i. foldl (+) x (take i rest)) (map Suc [0..<length rest])"
    by (simp add: upt_conv_Cons map_Suc_upt del: upt_Suc)
  then show ?thesis
    by (simp add: Cons cumsum_def cumsum_from_foldl o_def)
qed

lemma length_cumsum: "length (cumsum xs) = length xs"
  by (simp add: cumsum_foldl)

subsection \<open>Running balance\<close>

lemma line_chart_frame:
  "create_line_chart pd argsort df =
     (let frame = take_rows (argsort (map fst (parsed_frame pd df))) (parsed_frame pd df)
      in zip (map fst frame) (cumsum (map snd frame)))"
  by (simp add: create_line_chart_def frame_parsed Let_def)

lemma take_rows_distinct_keys:
  fixes frame :: "('d::linorder \<times> 'a) list"
  assumes "sorts_ascending argsort" and "distinct (map fst frame)"
  shows "take_rows (argsort (map fst frame)) frame = sort_key fst frame"
proof -
  let ?T = "take_rows (argsort (map fst frame)) frame"
  have "mset frame = mset ?T"
    using take_rows_ascending(1)[OF assms(1), of frame] by simp
  moreover have "inj_on fst (set frame)"
    using assms(2) unfolding distinct_map by (rule conjunct2)
  moreover have "sorted (map fst ?T)"
    using assms(1) by (rule take_rows_ascending(2))
  ultimately have "sort_key fst frame = ?T"
    by (rule sort_key_inj_key_eq)
  then show ?thesis by (rule sym)
qed

lemma zip_cumsum_foldl:
  "zip (map fst S) (cumsum (map snd S))
     = map (\<lambda>i. (fst (S ! i), foldl (+) (snd (hd S)) (map snd (take i (tl S))))) [0..<length S]"
proof (rule nth_equalityI)
  show "length (zip (map fst S) (cumsum (map snd S)))
      = length (map (\<lambda>i. (fst (S ! i), foldl (+) (snd (hd S)) (map snd (take i (tl S))))) [0..<length S])"
    by (simp add: length_cumsum)
next
  fix i
  assume "i < length (zip (map fst S) (cumsum (map snd S)))"
  then have i: "i < length S"
    by (simp add: length_cumsum)
  then have "S \<noteq> []"
    by auto
  then have "hd (map snd S) = snd (hd S)" "tl (map snd S) = map snd (tl S)"
    by (simp_all add: hd_map map_tl)
  then show "zip (map fst S) (cumsum (map snd S)) ! i
      = map (\<lambda>i. (fst (S ! i), foldl (+) (snd (hd S)) (map snd (take i (tl S))))) [0..<length S] ! i"
    using i by (simp add: length_cumsum cumsum_foldl take_map)
qed

lemma line_chart_distinct_dates:
  fixes pd :: "string list \<Rightarrow> ('d::linorder) parsed list"
  assumes "sorts_ascending argsort" and "distinct (map fst (parsed_frame pd df))"
  shows "create_line_chart pd argsort df = balance_series_spec pd df"
  by (simp add: line_chart_frame take_rows_distinct_keys[OF assms] balance_series_spec_def
        zip_cumsum_foldl Let_def)

lemma sort_parsed_frame_permute:
  fixes pd :: "string list \<Rightarrow> ('d::linorder) parsed list"
  assumes "mset (parsed_frame pd df') = mset (parsed_frame pd df)"
    and "distinct (map fst (parsed_frame pd df))"
  shows "sort_key fst (parsed_frame pd df') = sort_key fst (parsed_frame pd df)"
    and "distinct (map fst (parsed_frame pd df'))"
proof -
  have inj: "inj_on fst (set (parsed_frame pd df))"
    using assms(2) unfolding distinct_map by (rule conjunct2)
  have "sort_key fst (parsed_frame pd df) = sort_key fst (parsed_frame pd df')"
    using assms(1)[symmetric] inj by (rule sort_key_eq_sort_key)
  then show "sort_key fst (parsed_frame pd df') = sort_key fst (parsed_frame pd df)"
    by (rule sym)
  have "mset (map fst (parsed_frame pd df')) = mset (map fst (parsed_frame pd df))"
    using assms(1) by (simp only: mset_map)
  then show "distinct (map fst (parsed_frame pd df'))"
    using assms(2) mset_eq_imp_distinct_iff by blast
qed

lemma line_chart_permute:
  fixes pd :: "string list \<Rightarrow> ('d::linorder) parsed list"
  assumes "sorts_ascending argsort"
    and "mset (parsed_frame pd df') = mset (parsed_frame pd df)"
    and "distinct (map fst (parsed_frame pd df))"
  shows "create_line_chart pd argsort df' = create_line_chart pd argsort df"
proof -
  note perm = sort_parsed_frame_permute[OF assms(2,3)]
  have "create_line_chart pd argsort df' = balance_series_spec pd df'"
    using assms(1) perm(2) by (rule line_chart_distinct_dates)
  also have "\<dots> = balance_series_spec pd df"
    by (simp only: balance_series_spec_def perm(1))
  also have "\<dots> = create_line_chart pd argsort df"
    using assms(1,3) by (rule line_chart_distinct_dates[symmetric])
  finally show ?thesis .
qed

lemma line_chart_three_rows:
  fixes pd :: "string list \<Rightarrow> ('d::linorder) parsed list"
  assumes "sorts_ascending argsort"
    and "pd [d1, d3, d2] = [Timestamp t1, Timestamp t3, Timestamp t2]" and "t1 < t2" and "t2 < t3"
  shows "create_line_chart pd argsort
           [\<lparr>Description = a, Date = d1, Type = ''Income'', Amount = 100\<rparr>,
            \<lparr>Description = b, Date = d3, Type = ''Expense'', Amount = 30\<rparr>,
            \<lparr>Description = c, Date = d2, Type = ''Income'', Amount = 20\<rparr>]
         = [(t1, 100 :: rat), (t2, 120), (t3, 90)]"
proof -
  let ?df = "[\<lparr>Description = a, Date = d1, Type = ''Income'', Amount = 100 :: rat\<rparr>,
              \<lparr>Description = b, Date = d3, Type = ''Expense'', Amount = 30\<rparr>,
              \<lparr>Description = c, Date = d2, Type = ''Income'', Amount = 20\<rparr>]"
  have frame: "parsed_frame pd ?df = [(t1, 100), (t3, - 30), (t2, 20)]"
    by (simp add: parsed_frame_def assms(2) List.map_filter_simps coerce_def signed_amount_def
          lower_Income lower_Expense)
  have order: "t1 \<le> t2" "\<not> t3 \<le> t2" "t1 \<le> t3" "t1 \<noteq> t2" "t1 \<noteq> t3" "t3 \<noteq> t2"
    using assms(3,4) by auto
  have "distinct (map fst (parsed_frame pd ?df))"
    using order by (simp add: frame)
  then have "create_line_chart pd argsort ?df = balance_series_spec pd ?df"
    using assms(1) by (intro line_chart_distinct_dates)
  also have "\<dots> = [(t1, 100), (t2, 120), (t3, 90)]"
    using order by (simp add: balance_series_spec_def frame)
  finally show ?thesis .
qed

lemma Date_astype_Amount: "map Date (map (astype_Amount astype) df) = map Date df"
  by (simp add: astype_Amount_def o_def)

lemma no_NaT_rows:
  assumes "list_all (\<lambda>p. p \<noteq> Unparseable \<and> p \<noteq> NaT) ps"
  shows "filter (\<lambda>(d, s). d = None) (zip (map coerce ps) ss) = []"
  using assms
  by (induction ps ss rule: list_induct2') (auto simp: coerce_def split: parsed.splits)

lemma zip_map_Some:
  "zip (map fst (map (\<lambda>(t, s). (Some t, s)) X)) B = zip (map (\<lambda>p. Some (fst p)) X) B"
  by (simp add: o_def case_prod_beta)

lemma time_chart_frame:
  fixes pd :: "string list \<Rightarrow> ('d::linorder) parsed list"
  assumes "list_all (\<lambda>p. p \<noteq> Unparseable \<and> p \<noteq> NaT) (pd (map Date df))"
  shows "time_chart_data pd argsort astype df =
     (let dated = parsed_frame pd (map (astype_Amount astype) df);
          frame = take_rows (argsort (map fst dated)) dated
      in Inr (zip (map (\<lambda>p. Some (fst p)) frame) (cumsum (map snd frame))))"
proof -
  let ?df = "map (astype_Amount astype) df"
  let ?frame = "zip (map coerce (pd (map Date df))) (map signed_amount ?df)"
  have raise: "to_datetime_raise pd (map Date ?df) = Inr (map coerce (pd (map Date df)))"
    unfolding Date_astype_Amount
    using assms by (auto simp: to_datetime_raise_def list_ex_iff list_all_iff)
  have dated: "dropna_Date ?frame = parsed_frame pd ?df"
    using frame_parsed[of pd ?df] unfolding Date_astype_Amount to_datetime_coerce_def .
  have none: "filter (\<lambda>(d, s). d = None) ?frame = []"
    using assms by (rule no_NaT_rows)
  have snd: "map snd (map (\<lambda>(t, s). (Some t, s)) X) = map snd X" for X :: "('d \<times> 'f) list"
    by (simp add: o_def case_prod_beta)
  show ?thesis
    unfolding time_chart_data_def Let_def raise sum.case sort_values_Date_def dated none
      append_Nil2 snd zip_map_Some ..
qed

text \<open>
  Claim C1, as amended. Whatever order the library's sort gives, as long as it is an
  ascending order of the dates: the series of the on-screen chart lists the rows whose
  date parses, and only those, by ascending parsed date, each date with the running sum
  of the signed amounts of the rows listed so far; the export's series is built the same
  way, from the amounts converted to float, whenever every date parses. Rows with equal
  dates come in the order the library's sort leaves them. When the parsed dates are
  pairwise distinct the series is the one of the specification (stable sort, cumulative
  sum), and it is the same for two inputs that hold the same rows with the same parsed
  dates in different orders. For the rows (Jan-1, Income, 100), (Jan-3, Expense, 30),
  (Jan-2, Income, 20), their dates read as three successive days, the series is
  (Jan-1, 100), (Jan-2, 120), (Jan-3, 90).
\<close>

theorem balance_series_sorted_cumulative:
  fixes pd :: "string list \<Rightarrow> ('d::linorder) parsed list"
    and df df' :: "('a::{plus,uminus}) row list"
    and astype :: "'a \<Rightarrow> ('f::{plus,uminus})"
  assumes "sorts_ascending argsort"
  shows "(\<exists>frame. mset frame = mset (parsed_frame pd df) \<and> sorted (map fst frame)
            \<and> create_line_chart pd argsort df = zip (map fst frame) (cumsum (map snd frame)))
    \<and> (list_all (\<lambda>p. p \<noteq> Unparseable \<and> p \<noteq> NaT) (pd (map Date df))
          \<longrightarrow> (\<exists>frame. mset frame = mset (parsed_frame pd (map (astype_Amount astype) df))
                 \<and> sorted (map fst frame)
                 \<and> time_chart_data pd argsort astype df
                     = Inr (zip (map (\<lambda>p. Some (fst p)) frame) (cumsum (map snd frame)))))
    \<and> (distinct (map fst (parsed_frame pd df))
          \<longrightarrow> create_line_chart pd argsort df = balance_series_spec pd df)
    \<and> (distinct (map fst (parsed_frame pd df)) \<and> mset (parsed_frame pd df') = mset (parsed_frame pd df)
          \<longrightarrow> create_line_chart pd argsort df' = create_line_chart pd argsort df)
    \<and> (pd [d1, d3, d2] = [Timestamp t1, Timestamp t3, Timestamp t2] \<and> t1 < t2 \<and> t2 < t3
          \<longrightarrow> create_line_chart pd argsort
                [\<lparr>Description = a, Date = d1, Type = ''Income'', Amount = 100\<rparr>,
                 \<lparr>Description = b, Date = d3, Type = ''Expense'', Amount = 30\<rparr>,
                 \<lparr>Description = c, Date = d2, Type = ''Income'', Amount = 20\<rparr>]
              = [(t1, 100 :: rat), (t2, 120), (t3, 90)])"
proof (intro conjI impI)
  let ?F = "parsed_frame pd df"
  let ?T = "take_rows (argsort (map fst ?F)) ?F"
  have "mset ?T = mset ?F" "sorted (map fst ?T)"
    using assms by (rule take_rows_ascending)+
  moreover have "create_line_chart pd argsort df = zip (map fst ?T) (cumsum (map snd ?T))"
    by (simp add: line_chart_frame Let_def)
  ultimately show "\<exists>frame. mset frame = mset ?F \<and> sorted (map fst frame)
      \<and> create_line_chart pd argsort df = zip (map fst frame) (cumsum (map snd frame))"
    by blast
next
  assume parse: "list_all (\<lambda>p. p \<noteq> Unparseable \<and> p \<noteq> NaT) (pd (map Date df))"
  let ?F = "parsed_frame pd (map (astype_Amount astype) df)"
  let ?T = "take_rows (argsort (map fst ?F)) ?F"
  have "mset ?T = mset ?F" "sorted (map fst ?T)"
    using assms by (rule take_rows_ascending)+
  moreover have "time_chart_data pd argsort astype df
      = Inr (zip (map (\<lambda>p. Some (fst p)) ?T) (cumsum (map snd ?T)))"
    using parse by (simp add: time_chart_frame Let_def)
  ultimately show "\<exists>frame. mset frame = mset ?F \<and> sorted (map fst frame)
      \<and> time_chart_data pd argsort astype df
          = Inr (zip (map (\<lambda>p. Some (fst p)) frame) (cumsum (map snd frame)))"
    by blast
next
  assume "distinct (map fst (parsed_frame pd df))"
  with assms show "create_line_chart pd argsort df = balance_series_spec pd df"
    by (rule line_chart_distinct_dates)
next
  assume "distinct (map fst (parsed_frame pd df)) \<and> mset (parsed_frame pd df') = mset (parsed_frame pd df)"
  then show "create_line_chart pd argsort df' = create_line_chart pd argsort df"
    by (intro line_chart_permute assms) (erule conjunct2, erule conjunct1)
next
  assume "pd [d1, d3, d2] = [Timestamp t1, Timestamp t3, Timestamp t2] \<and> t1 < t2 \<and> t2 < t3"
  then show "create_line_chart pd argsort
                [\<lparr>Description = a, Date = d1, Type = ''Income'', Amount = 100\<rparr>,
                 \<lparr>Description = b, Date = d3, Type = ''Expense'', Amount = 30\<rparr>,
                 \<lparr>Description = c, Date = d2, Type = ''Income'', Amount = 20\<rparr>]
              = [(t1, 100 :: rat), (t2, 120), (t3, 90)]"
    by (intro line_chart_three_rows assms) blast+
qed

lemma iso_date_examples:
  "iso_date ''2024-01-01'' = Timestamp 20240101"
  "iso_date ''2024-01-02'' = Timestamp 20240102"
  "iso_date ''2024-01-03'' = Timestamp 20240103"
  "iso_date ''soon'' = Unparseable"
  "iso_date '''' = NaT"
  by code_simp+

lemma indexer_of_two:
  assumes "mset indexer = mset [0..<length ks]" and "length ks = 2"
  shows "indexer = [0, Suc 0] \<or> indexer = [Suc 0, 0]"
proof -
  have upt: "[0..<length ks] = [0, Suc 0]"
    by (simp add: assms(2) numeral_2_eq_2)
  have "length indexer = 2"
    using assms mset_eq_length by fastforce
  then obtain a b where ab: "indexer = [a, b]"
    by (auto simp: length_Suc_conv numeral_2_eq_2)
  have "mset [a, b] = mset [0, Suc 0]"
    using assms(1) unfolding ab upt .
  then have "{#a, b#} = {#0, Suc 0#}"
    by simp
  then show ?thesis
    unfolding ab by (auto simp: add_eq_conv_ex)
qed

lemma indexer_of_one:
  assumes "mset indexer = mset [0..<length ks]" and "length ks = 1"
  shows "indexer = [0]"
proof -
  have "[0..<length ks] = [0]"
    by (simp add: assms(2))
  then have "mset indexer = {#0#}"
    using assms(1) by simp
  then show ?thesis
    by (metis mset_single_iff_right)
qed

theorem balance_series_sorted_cumulative_witness:
  "sorts_ascending (insertion_argsort :: int list \<Rightarrow> nat list)
   \<and> list_all (\<lambda>p. p \<noteq> Unparseable \<and> p \<noteq> NaT) (map iso_date (map Date
         [\<lparr>Description = ''Salary'', Date = ''2024-01-01'', Type = ''Income'', Amount = 100 :: rat\<rparr>,
          \<lparr>Description = ''Gift'', Date = ''2024-01-02'', Type = ''Income'', Amount = 20\<rparr>]))
   \<and> distinct (map fst (parsed_frame (map iso_date)
         [\<lparr>Description = ''Salary'', Date = ''2024-01-01'', Type = ''Income'', Amount = 100 :: rat\<rparr>,
          \<lparr>Description = ''Gift'', Date = ''2024-01-02'', Type = ''Income'', Amount = 20\<rparr>]))
   \<and> mset (parsed_frame (map iso_date)
         [\<lparr>Description = ''Gift'', Date = ''2024-01-02'', Type = ''Income'', Amount = 20 :: rat\<rparr>,
          \<lparr>Description = ''Salary'', Date = ''2024-01-01'', Type = ''Income'', Amount = 100\<rparr>])
     = mset (parsed_frame (map iso_date)
         [\<lparr>Description = ''Salary'', Date = ''2024-01-01'', Type = ''Income'', Amount = 100 :: rat\<rparr>,
          \<lparr>Description = ''Gift'', Date = ''2024-01-02'', Type = ''Income'', Amount = 20\<rparr>])
   \<and> create_line_chart (map iso_date) insertion_argsort
         [\<lparr>Description = ''Gift'', Date = ''2024-01-02'', Type = ''Income'', Amount = 20 :: rat\<rparr>,
          \<lparr>Description = ''Salary'', Date = ''2024-01-01'', Type = ''Income'', Amount = 100\<rparr>]
       = create_line_chart (map iso_date) insertion_argsort
         [\<lparr>Description = ''Salary'', Date = ''2024-01-01'', Type = ''Income'', Amount = 100 :: rat\<rparr>,
          \<lparr>Description = ''Gift'', Date = ''2024-01-02'', Type = ''Income'', Amount = 20\<rparr>]
   \<and> create_line_chart (map iso_date) insertion_argsort
         [\<lparr>Description = ''Salary'', Date = ''2024-01-01'', Type = ''Income'', Amount = 100 :: rat\<rparr>,
          \<lparr>Description = ''Gift'', Date = ''2024-01-02'', Type = ''Income'', Amount = 20\<rparr>]
       = balance_series_spec (map iso_date)
         [\<lparr>Description = ''Salary'', Date = ''2024-01-01'', Type = ''Income'', Amount = 100 :: rat\<rparr>,
          \<lparr>Description = ''Gift'', Date = ''2024-01-02'', Type = ''Income'', Amount = 20\<rparr>]
   \<and> (\<exists>frame. mset frame = mset (parsed_frame (map iso_date) (map (astype_Amount (\<lambda>x. x))
           [\<lparr>Description = ''Salary'', Date = ''2024-01-01'', Type = ''Income'', Amount = 100 :: rat\<rparr>,
            \<lparr>Description = ''Gift'', Date = ''2024-01-02'', Type = ''Income'', Amount = 20\<rparr>]))
         \<and> sorted (map fst frame)
         \<and> time_chart_data (map iso_date) insertion_argsort (\<lambda>x. x)
           [\<lparr>Description = ''Salary'', Date = ''2024-01-01'', Type = ''Income'', Amount = 100 :: rat\<rparr>,
            \<lparr>Description = ''Gift'', Date = ''2024-01-02'', Type = ''Income'', Amount = 20\<rparr>]
           = Inr (zip (map (\<lambda>p. Some (fst p)) frame) (cumsum (map snd frame))))
   \<and> map iso_date [''2024-01-01'', ''2024-01-03'', ''2024-01-02'']
       = [Timestamp 20240101, Timestamp 20240103, Timestamp 20240102]
   \<and> (20240101 :: int) < 20240102 \<and> (20240102 :: int) < 20240103
   \<and> create_line_chart (map iso_date) insertion_argsort
         [\<lparr>Description = ''Salary'', Date = ''2024-01-01'', Type = ''Income'', Amount = 100\<rparr>,
          \<lparr>Description = ''Rent'', Date = ''2024-01-03'', Type = ''Expense'', Amount = 30\<rparr>,
          \<lparr>Description = ''Gift'', Date = ''2024-01-02'', Type = ''Income'', Amount = 20\<rparr>]
       = [(20240101, 100 :: rat), (20240102, 120), (20240103, 90)]"
proof -
  let ?s = "\<lparr>Description = ''Salary'', Date = ''2024-01-01'', Type = ''Income'', Amount = 100 :: rat\<rparr>"
  let ?g = "\<lparr>Description = ''Gift'', Date = ''2024-01-02'', Type = ''Income'', Amount = 20 :: rat\<rparr>"
  have ok: "sorts_ascending (insertion_argsort :: int list \<Rightarrow> nat list)"
    by (rule insertion_argsort_ascending)
  have parse: "list_all (\<lambda>p. p \<noteq> Unparseable \<and> p \<noteq> NaT) (map iso_date (map Date [?s, ?g]))"
    by (simp add: iso_date_examples)
  have frame: "parsed_frame (map iso_date) [?s, ?g] = [(20240101, 100), (20240102, 20)]"
      "parsed_frame (map iso_date) [?g, ?s] = [(20240102, 20), (20240101, 100)]"
    by (simp_all add: parsed_frame_def List.map_filter_simps iso_date_examples coerce_def
          signed_amount_def lower_Income)
  have dist: "distinct (map fst (parsed_frame (map iso_date) [?s, ?g]))"
    by (simp add: frame)
  have perm: "mset (parsed_frame (map iso_date) [?g, ?s]) = mset (parsed_frame (map iso_date) [?s, ?g])"
    by (simp add: frame)
  have dates: "map iso_date [''2024-01-01'', ''2024-01-03'', ''2024-01-02'']
       = [Timestamp 20240101, Timestamp 20240103, Timestamp 20240102]"
    by (simp add: iso_date_examples)
  note inst = balance_series_sorted_cumulative [OF ok, of "map iso_date" "[?s, ?g]" "\<lambda>x. x" "[?g, ?s]"
      "''2024-01-01''" "''2024-01-03''" "''2024-01-02''" 20240101 20240103 20240102
      "''Salary''" "''Rent''" "''Gift''"]
  show ?thesis
    using inst ok parse dist perm dates by simp
qed

text \<open>
  Two rows with the same date, in either order: no ascending order whatever gives the two
  inputs the same series, so the series is not independent of the input order. (The order
  sees the same two equal keys both times and moves the rows the same way, so one input
  yields (100, 70) and the other (-30, 70).)
\<close>

theorem balance_series_order_counterexample:
  "\<not> (\<exists>argsort. sorts_ascending argsort
        \<and> create_line_chart (map iso_date) argsort
            [\<lparr>Description = ''Salary'', Date = ''2024-01-01'', Type = ''Income'', Amount = 100 :: rat\<rparr>,
             \<lparr>Description = ''Rent'', Date = ''2024-01-01'', Type = ''Expense'', Amount = 30\<rparr>]
          = create_line_chart (map iso_date) argsort
            [\<lparr>Description = ''Rent'', Date = ''2024-01-01'', Type = ''Expense'', Amount = 30 :: rat\<rparr>,
             \<lparr>Description = ''Salary'', Date = ''2024-01-01'', Type = ''Income'', Amount = 100\<rparr>])"
proof
  let ?s = "\<lparr>Description = ''Salary'', Date = ''2024-01-01'', Type = ''Income'', Amount = 100 :: rat\<rparr>"
  let ?r = "\<lparr>Description = ''Rent'', Date = ''2024-01-01'', Type = ''Expense'', Amount = 30 :: rat\<rparr>"
  assume "\<exists>argsort. sorts_ascending argsort
        \<and> create_line_chart (map iso_date) argsort [?s, ?r] = create_line_chart (map iso_date) argsort [?r, ?s]"
  then obtain argsort :: "int list \<Rightarrow> nat list" where ok: "sorts_ascending argsort"
    and same: "create_line_chart (map iso_date) argsort [?s, ?r] = create_line_chart (map iso_date) argsort [?r, ?s]"
    by blast
  have frame: "parsed_frame (map iso_date) [?s, ?r] = [(20240101, 100), (20240101, - 30)]"
      "parsed_frame (map iso_date) [?r, ?s] = [(20240101, - 30), (20240101, 100)]"
    by (simp_all add: parsed_frame_def List.map_filter_simps iso_date_examples coerce_def
          signed_amount_def lower_Income lower_Expense)
  have "mset (argsort [20240101, 20240101]) = mset [0..<length [20240101 :: int, 20240101]]"
    using ok[unfolded sorts_ascending_def, rule_format, of "[20240101, 20240101]"] by (rule conjunct1)
  then have "argsort [20240101, 20240101] = [0, Suc 0] \<or> argsort [20240101, 20240101] = [Suc 0, 0]"
    by (rule indexer_of_two) simp
  then show False
    using same by (auto simp: line_chart_frame frame take_rows_def cumsum_def)
qed

subsection \<open>Grouping summary\<close>

lemma type_sums_keys:
  "map fst (map (\<lambda>(k, g). (k, agg g)) (groupby_Description df)) = sort (remdups (map Description df))"
  by (simp add: groupby_Description_def o_def)








subsection \<open>The two running-balance derivations\<close>

text \<open>
  Claim C9. The derivation of the chart view and that of the export are meant to be one
  function. They are not: on a row whose date does not parse the chart view drops the row
  and returns a series, the export raises, whatever order the library's sort gives and
  whatever the conversion to float does.
\<close>

theorem charts_and_export_differ:
  assumes "sorts_ascending argsort"
  shows "create_line_chart (map iso_date) argsort
     [\<lparr>Description = ''Salary'', Date = ''2024-01-01'', Type = ''Income'', Amount = 100 :: rat\<rparr>,
      \<lparr>Description = ''Rent'', Date = ''soon'', Type = ''Expense'', Amount = 30\<rparr>]
     = [(20240101, 100)]
   \<and> time_chart_data (map iso_date) argsort astype
     [\<lparr>Description = ''Salary'', Date = ''2024-01-01'', Type = ''Income'', Amount = 100 :: rat\<rparr>,
      \<lparr>Description = ''Rent'', Date = ''soon'', Type = ''Expense'', Amount = 30\<rparr>]
     = Inl ValueError"
proof
  let ?df = "[\<lparr>Description = ''Salary'', Date = ''2024-01-01'', Type = ''Income'', Amount = 100 :: rat\<rparr>,
              \<lparr>Description = ''Rent'', Date = ''soon'', Type = ''Expense'', Amount = 30\<rparr>]"
  have frame: "parsed_frame (map iso_date) ?df = [(20240101, 100)]"
    by (simp add: parsed_frame_def List.map_filter_simps iso_date_examples coerce_def
          signed_amount_def lower_Income)
  have "mset (argsort [20240101]) = mset [0..<length [20240101 :: int]]"
    using assms[unfolded sorts_ascending_def, rule_format, of "[20240101]"] by (rule conjunct1)
  then have "argsort [20240101] = [0]"
    by (rule indexer_of_one) simp
  then show "create_line_chart (map iso_date) argsort ?df = [(20240101, 100)]"
    by (simp add: line_chart_frame frame take_rows_def cumsum_def)
  show "time_chart_data (map iso_date) argsort astype ?df = Inl ValueError"
    by (simp add: time_chart_data_def to_datetime_raise_def astype_Amount_def iso_date_examples)
qed

theorem charts_and_export_differ_witness:
  "sorts_ascending (insertion_argsort :: int list \<Rightarrow> nat list)
   \<and> create_line_chart (map iso_date) insertion_argsort
     [\<lparr>Description = ''Salary'', Date = ''2024-01-01'', Type = ''Income'', Amount = 100 :: rat\<rparr>,
      \<lparr>Description = ''Rent'', Date = ''soon'', Type = ''Expense'', Amount = 30\<rparr>]
     = [(20240101, 100)]
   \<and> time_chart_data (map iso_date) insertion_argsort (\<lambda>x. x :: rat)
     [\<lparr>Description = ''Salary'', Date = ''2024-01-01'', Type = ''Income'', Amount = 100 :: rat\<rparr>,
      \<lparr>Description = ''Rent'', Date = ''soon'', Type = ''Expense'', Amount = 30\<rparr>]
     = Inl ValueError"
  using charts_and_export_differ [OF insertion_argsort_ascending, of "\<lambda>x. x :: rat"]
    insertion_argsort_ascending
  by blast

section \<open>Edit history\<close>

lemma set_cell_outside:
  "\<not> (r < rowCount tw \<and> c < columnCount tw) \<Longrightarrow> set_cell tw r c v = tw"
  by (auto simp: set_cell_def)

lemma on_item_changed_ignored:
  "ignore_change w \<Longrightarrow> on_item_changed raises w r c = Returned () w"
  by simp

lemma setItem_ignored:
  assumes "ignore_change w"
  shows "setItem raises w r c v =
           (if raises r c then Raised RuntimeError w
            else Returned () (w\<lparr>tableWidget := set_cell (tableWidget w) r c v\<rparr>))"
  using assms by (simp add: set_cell_outside)

lemma cmd_undo_eq:
  "cmd_undo raises w cmd =
     (if raises (cmd_row cmd) (cmd_col cmd) then Raised RuntimeError (w\<lparr>ignore_change := True\<rparr>)
      else Returned ()
             (w\<lparr>tableWidget := set_cell (tableWidget w) (cmd_row cmd) (cmd_col cmd) (old_value cmd),
                ignore_change := False\<rparr>))"
  by (simp add: cmd_undo_def setItem_ignored del: setItem.simps)

lemma cmd_redo_eq:
  "cmd_redo raises w cmd =
     (if raises (cmd_row cmd) (cmd_col cmd) then Raised RuntimeError (w\<lparr>ignore_change := True\<rparr>)
      else Returned ()
             (w\<lparr>tableWidget := set_cell (tableWidget w) (cmd_row cmd) (cmd_col cmd) (new_value cmd),
                ignore_change := False\<rparr>))"
  by (simp add: setItem_ignored del: setItem.simps)

lemma on_item_changed_recorded:
  assumes "\<not> ignore_change w"
  shows "on_item_changed raises w r c =
     (let command = \<lparr>cmd_row = r, cmd_col = c,
                      old_value = (if last_cell w = Some (r, c)
                                   then (case last_value w of Some v \<Rightarrow> v | None \<Rightarrow> [])
                                   else []),
                      new_value = item_text (tableWidget w) r c\<rparr>
      in if raises r c
         then Raised RuntimeError
                (w\<lparr>ignore_change := True,
                   undo_stack := \<lparr>command_list = take (index (undo_stack w)) (command_list (undo_stack w)) @ [command],
                                   index = index (undo_stack w) + 1\<rparr>\<rparr>)
         else Returned ()
                (w\<lparr>tableWidget := set_cell (tableWidget w) r c (item_text (tableWidget w) r c),
                   ignore_change := False,
                   undo_stack := \<lparr>command_list = take (index (undo_stack w)) (command_list (undo_stack w)) @ [command],
                                   index = index (undo_stack w) + 1\<rparr>\<rparr>))"
  using assms by (simp add: cmd_redo_eq Let_def del: cmd_redo.simps)

lemma QUndoStack_undo_eq:
  "QUndoStack_undo raises w =
     (if index (undo_stack w) = 0 then Returned () w
      else let cmd = command_list (undo_stack w) ! (index (undo_stack w) - 1) in
        if raises (cmd_row cmd) (cmd_col cmd)
        then Raised RuntimeError
               (w\<lparr>ignore_change := True,
                  undo_stack := (undo_stack w)\<lparr>index := index (undo_stack w) - 1\<rparr>\<rparr>)
        else Returned ()
               (w\<lparr>tableWidget := set_cell (tableWidget w) (cmd_row cmd) (cmd_col cmd) (old_value cmd),
                  ignore_change := False,
                  undo_stack := (undo_stack w)\<lparr>index := index (undo_stack w) - 1\<rparr>\<rparr>))"
  by (simp add: QUndoStack_undo_def cmd_undo_eq Let_def)

lemma QUndoStack_redo_eq:
  "QUndoStack_redo raises w =
     (if index (undo_stack w) = length (command_list (undo_stack w)) then Returned () w
      else let cmd = command_list (undo_stack w) ! index (undo_stack w) in
        if raises (cmd_row cmd) (cmd_col cmd)
        then Raised RuntimeError
               (w\<lparr>ignore_change := True,
                  undo_stack := (undo_stack w)\<lparr>index := index (undo_stack w) + 1\<rparr>\<rparr>)
        else Returned ()
               (w\<lparr>tableWidget := set_cell (tableWidget w) (cmd_row cmd) (cmd_col cmd) (new_value cmd),
                  ignore_change := False,
                  undo_stack := (undo_stack w)\<lparr>index := index (undo_stack w) + 1\<rparr>\<rparr>))"
  by (simp add: QUndoStack_redo_def cmd_redo_eq Let_def del: cmd_redo.simps)

lemma undo_eq:
  "undo raises w =
     (if index (undo_stack w) = 0 then Returned () (w\<lparr>ignore_change := False, status := ''Undo''\<rparr>)
      else let cmd = command_list (undo_stack w) ! (index (undo_stack w) - 1) in
        if raises (cmd_row cmd) (cmd_col cmd)
        then Raised RuntimeError
               (w\<lparr>ignore_change := True,
                  undo_stack := (undo_stack w)\<lparr>index := index (undo_stack w) - 1\<rparr>\<rparr>)
        else Returned ()
               (w\<lparr>tableWidget := set_cell (tableWidget w) (cmd_row cmd) (cmd_col cmd) (old_value cmd),
                  ignore_change := False,
                  undo_stack := (undo_stack w)\<lparr>index := index (undo_stack w) - 1\<rparr>,
                  status := ''Undo''\<rparr>))"
  by (simp add: undo_def QUndoStack_undo_eq Let_def show_status_def)

lemma redo_eq:
  "redo raises w =
     (if index (undo_stack w) = length (command_list (undo_stack w))
      then Returned () (w\<lparr>ignore_change := False, status := ''Redo''\<rparr>)
      else let cmd = command_list (undo_stack w) ! index (undo_stack w) in
        if raises (cmd_row cmd) (cmd_col cmd)
        then Raised RuntimeError
               (w\<lparr>ignore_change := True,
                  undo_stack := (undo_stack w)\<lparr>index := index (undo_stack w) + 1\<rparr>\<rparr>)
        else Returned ()
               (w\<lparr>tableWidget := set_cell (tableWidget w) (cmd_row cmd) (cmd_col cmd) (new_value cmd),
                  ignore_change := False,
                  undo_stack := (undo_stack w)\<lparr>index := index (undo_stack w) + 1\<rparr>,
                  status := ''Redo''\<rparr>))"
  by (simp add: redo_def QUndoStack_redo_eq Let_def show_status_def)

text \<open>
  Outside the guard the same \<open>setItem\<close> does reach the slot and a command is recorded:
  this is what the import does for every cell it fills.
\<close>

lemma setItem_recorded:
  assumes "\<not> ignore_change w" and "\<not> raises r c"
    and "r < rowCount (tableWidget w)" and "c < columnCount (tableWidget w)"
  shows "length (command_list (undo_stack (state_of (setItem raises w r c v))))
           = Suc (min (length (command_list (undo_stack w))) (index (undo_stack w)))"
  using assms
  by (simp add: on_item_changed_recorded state_of_def Let_def set_cell_def
        rowCount_def columnCount_def del: on_item_changed.simps)

text \<open>
  Claim C4, as amended. No call of \<open>undo()\<close> or \<open>redo()\<close>, of the window or of a command,
  appends a record to the edit history, whether the call returns or raises: the commands
  of the stack are the same afterwards. When the call returns, the reentrancy flag is
  false afterwards. (When \<open>setItem\<close> raises inside a command, the command leaves the flag
  set: nothing resets it on that exit path.)
\<close>

theorem undo_redo_never_record:
  "command_list (undo_stack (state_of (undo raises w))) = command_list (undo_stack w)
   \<and> command_list (undo_stack (state_of (redo raises w))) = command_list (undo_stack w)
   \<and> undo_stack (state_of (cmd_undo raises w cmd)) = undo_stack w
   \<and> undo_stack (state_of (cmd_redo raises w cmd)) = undo_stack w
   \<and> (undo raises w = Returned u w' \<longrightarrow> \<not> ignore_change w')
   \<and> (redo raises w = Returned u w' \<longrightarrow> \<not> ignore_change w')
   \<and> (cmd_undo raises w cmd = Returned u w' \<longrightarrow> \<not> ignore_change w')
   \<and> (cmd_redo raises w cmd = Returned u w' \<longrightarrow> \<not> ignore_change w')"
proof (intro conjI impI)
  show "command_list (undo_stack (state_of (undo raises w))) = command_list (undo_stack w)"
    by (simp add: undo_eq state_of_def Let_def)
  show "command_list (undo_stack (state_of (redo raises w))) = command_list (undo_stack w)"
    by (simp add: redo_eq state_of_def Let_def)
  show "undo_stack (state_of (cmd_undo raises w cmd)) = undo_stack w"
    by (simp add: cmd_undo_eq state_of_def)
  show "undo_stack (state_of (cmd_redo raises w cmd)) = undo_stack w"
    by (simp add: cmd_redo_eq state_of_def del: cmd_redo.simps)
  show "\<not> ignore_change w'" if "undo raises w = Returned u w'"
    using that by (auto simp: undo_eq Let_def split: if_splits)
  show "\<not> ignore_change w'" if "redo raises w = Returned u w'"
    using that by (auto simp: redo_eq Let_def split: if_splits)
  show "\<not> ignore_change w'" if "cmd_undo raises w cmd = Returned u w'"
    using that by (auto simp: cmd_undo_eq split: if_splits)
  show "\<not> ignore_change w'" if "cmd_redo raises w cmd = Returned u w'"
    using that by (auto simp: cmd_redo_eq split: if_splits simp del: cmd_redo.simps)
qed

text \<open>
  A command whose \<open>setItem\<close> raises exits with the flag set.
\<close>

theorem guard_left_set_counterexample:
  "\<not> ignore_change example_window
   \<and> cmd_undo always example_window \<lparr>cmd_row = 0, cmd_col = 0, old_value = ''Salary'', new_value = ''Wages''\<rparr>
       = Raised RuntimeError (example_window\<lparr>ignore_change := True\<rparr>)
   \<and> ignore_change (state_of (cmd_undo always example_window
         \<lparr>cmd_row = 0, cmd_col = 0, old_value = ''Salary'', new_value = ''Wages''\<rparr>))"
  by (simp add: cmd_undo_eq always_def state_of_def example_window_def)

theorem undo_redo_never_record_witness:
  "command_list (undo_stack (state_of (user_edit never example_window 0 0 ''Wages'')))
     = [\<lparr>cmd_row = 0, cmd_col = 0, old_value = [], new_value = ''Wages''\<rparr>]
   \<and> command_list (undo_stack (state_of (undo never (state_of (user_edit never example_window 0 0 ''Wages'')))))
     = [\<lparr>cmd_row = 0, cmd_col = 0, old_value = [], new_value = ''Wages''\<rparr>]
   \<and> undo never (state_of (user_edit never example_window 0 0 ''Wages''))
     = Returned () (state_of (undo never (state_of (user_edit never example_window 0 0 ''Wages''))))
   \<and> \<not> ignore_change (state_of (undo never (state_of (user_edit never example_window 0 0 ''Wages''))))"
proof -
  let ?w = "state_of (user_edit never example_window 0 0 ''Wages'')"
  have cmds: "command_list (undo_stack ?w) = [\<lparr>cmd_row = 0, cmd_col = 0, old_value = [], new_value = ''Wages''\<rparr>]"
    by code_simp
  have ret: "undo never ?w = Returned () (state_of (undo never ?w))"
    by (simp add: undo_eq never_def state_of_def Let_def)
  note inst = undo_redo_never_record [of never ?w _ "()" "state_of (undo never ?w)"]
  show ?thesis
    using inst cmds ret by simp
qed

text \<open>
  Claim C3. Undo is meant to restore the text the cell held before the edit. It does so
  only when the cell was clicked just before the edit. In the loaded window the cell
  (0, 0) holds Salary. Edited to Wages without a click (with the keyboard), undo leaves it
  empty. Clicked, edited to Wages and edited again to Pay, undo brings back Salary, not
  Wages.
\<close>

theorem undo_does_not_restore_prior_text:
  "item_text (tableWidget example_window) 0 0 = ''Salary''
   \<and> item_text (tableWidget (state_of (user_edit never example_window 0 0 ''Wages''))) 0 0 = ''Wages''
   \<and> item_text (tableWidget (state_of (undo never
         (state_of (user_edit never example_window 0 0 ''Wages''))))) 0 0 = []
   \<and> item_text (tableWidget
         (state_of (user_edit never (on_cell_clicked example_window 0 0) 0 0 ''Wages''))) 0 0 = ''Wages''
   \<and> item_text (tableWidget (state_of (undo never
         (state_of (user_edit never
           (state_of (user_edit never (on_cell_clicked example_window 0 0) 0 0 ''Wages'')) 0 0 ''Pay''))))) 0 0
       = ''Salary''"
  by (intro conjI) code_simp+

lemma item_set_cell:
  assumes "r < rowCount tw" "c < columnCount tw" "c < length (items tw ! r)"
  shows "item (set_cell tw r c v) r c = Some v"
  using assms by (simp add: item_def set_cell_def rowCount_def columnCount_def)

lemma rowCount_set_cell [simp]: "rowCount (set_cell tw r c v) = rowCount tw"
  by (simp add: set_cell_def rowCount_def)

lemma columnCount_set_cell [simp]: "columnCount (set_cell tw r c v) = columnCount tw"
  by (simp add: set_cell_def columnCount_def)

lemma set_cell_twice [simp]: "set_cell (set_cell tw r c u) r c v = set_cell tw r c v"
  by (simp add: set_cell_def rowCount_def columnCount_def)

lemma row_length_set_cell:
  "r < rowCount tw \<Longrightarrow> length (items (set_cell tw r c v) ! r) = length (items tw ! r)"
  by (simp add: set_cell_def rowCount_def)

lemma item_text_set_cell:
  assumes "r < rowCount tw" "c < columnCount tw" "c < length (items tw ! r)"
  shows "item_text (set_cell tw r c v) r c = v"
  using assms by (simp add: item_text_def item_set_cell)

text \<open>
  What does hold: when the cell is clicked and then edited, undo brings back the text the
  cell held, redo the text of the edit, and the two together leave the grid as the edit
  left it.
\<close>

lemma click_edit_undo_redo:
  assumes flag: "\<not> ignore_change w"
    and inside: "r < rowCount (tableWidget w)" "c < columnCount (tableWidget w)"
                "c < length (items (tableWidget w) ! r)"
    and changed: "item (tableWidget w) r c \<noteq> Some txt"
    and idx: "index (undo_stack w) \<le> length (command_list (undo_stack w))"
  defines "w2 \<equiv> state_of (user_edit never (on_cell_clicked w r c) r c txt)"
  defines "w3 \<equiv> state_of (undo never w2)"
  defines "w4 \<equiv> state_of (redo never w3)"
  shows "item_text (tableWidget w2) r c = txt"
    and "item_text (tableWidget w3) r c = item_text (tableWidget w) r c"
    and "item_text (tableWidget w4) r c = txt"
    and "tableWidget w4 = tableWidget w2"
proof -
  let ?tw = "tableWidget w"
  let ?cmd = "\<lparr>cmd_row = r, cmd_col = c, old_value = item_text ?tw r c, new_value = txt\<rparr>"
  let ?cmds = "take (index (undo_stack w)) (command_list (undo_stack w))"
  have w2: "w2 = w\<lparr>tableWidget := set_cell ?tw r c txt,
                    undo_stack := \<lparr>command_list = ?cmds @ [?cmd], index = index (undo_stack w) + 1\<rparr>,
                    ignore_change := False,
                    last_cell := Some (r, c),
                    last_value := Some (item_text ?tw r c)\<rparr>"
    unfolding w2_def using flag inside changed
    by (simp add: user_edit_def on_cell_clicked_def on_item_changed_recorded never_def state_of_def
          Let_def item_text_set_cell del: on_item_changed.simps)
  have w3: "w3 = w2\<lparr>tableWidget := set_cell ?tw r c (item_text ?tw r c),
                     ignore_change := False,
                     undo_stack := \<lparr>command_list = ?cmds @ [?cmd], index = index (undo_stack w)\<rparr>,
                     status := ''Undo''\<rparr>"
    unfolding w3_def using idx
    by (simp add: w2 undo_eq never_def state_of_def Let_def nth_append min_def)
  have w4: "w4 = w3\<lparr>tableWidget := set_cell ?tw r c txt,
                     ignore_change := False,
                     undo_stack := \<lparr>command_list = ?cmds @ [?cmd], index = index (undo_stack w) + 1\<rparr>,
                     status := ''Redo''\<rparr>"
    unfolding w4_def using idx
    by (simp add: w3 w2 redo_eq never_def state_of_def Let_def nth_append min_def)
  show "item_text (tableWidget w2) r c = txt"
    using inside by (simp add: w2 item_text_set_cell)
  show "item_text (tableWidget w3) r c = item_text (tableWidget w) r c"
    using inside by (simp add: w3 w2 item_text_set_cell)
  show "item_text (tableWidget w4) r c = txt"
    using inside by (simp add: w4 w3 w2 item_text_set_cell)
  show "tableWidget w4 = tableWidget w2"
    by (simp add: w4 w3 w2)
qed

section \<open>Typed row extraction\<close>

lemma index_of_less: "x \<in> set xs \<Longrightarrow> index_of x xs < length xs"
  by (induction xs) auto

lemma nth_index_of: "x \<in> set xs \<Longrightarrow> xs ! index_of x xs = x"
  by (induction xs) auto

lemma count_list_1_mem: "count_list xs x = 1 \<Longrightarrow> x \<in> set xs"
  by (metis count_list_0_iff zero_neq_one)

lemma dropna_keeps_row:
  assumes "length r = length labels" and "i < length labels" and "labels ! i = ''Amount''"
  shows "list_all (\<lambda>(label, c). label \<notin> set [''Amount'', ''Date'', ''Type''] \<or> c \<noteq> NaN)
           (zip labels ((map Text r)[i := X])) \<longleftrightarrow> X \<noteq> NaN"
proof -
  have "list_all (\<lambda>(label, c). label \<notin> set [''Amount'', ''Date'', ''Type''] \<or> c \<noteq> NaN)
           (zip labels ((map Text r)[i := X]))
        \<longleftrightarrow> (\<forall>j < length labels. labels ! j \<notin> set [''Amount'', ''Date'', ''Type'']
                 \<or> ((map Text r)[i := X]) ! j \<noteq> NaN)"
    using assms(1) by (simp add: list_all_length)
  also have "\<dots> \<longleftrightarrow> X \<noteq> NaN"
  proof
    assume all: "\<forall>j < length labels. labels ! j \<notin> set [''Amount'', ''Date'', ''Type'']
                 \<or> ((map Text r)[i := X]) ! j \<noteq> NaN"
    show "X \<noteq> NaN"
      using all[rule_format, of i] assms by simp
  next
    assume X: "X \<noteq> NaN"
    have "((map Text r)[i := X]) ! j \<noteq> NaN" if "j < length labels" for j
      using that X assms(1) by (cases "j = i") simp_all
    then show "\<forall>j < length labels. labels ! j \<notin> set [''Amount'', ''Date'', ''Type'']
                 \<or> ((map Text r)[i := X]) ! j \<noteq> NaN"
      by blast
  qed
  finally show ?thesis .
qed

lemma table_to_dataframe_eq:
  assumes rows: "0 < rowCount table"
    and hdr: "headers table = map Some labels"
    and amount: "count_list labels ''Amount'' = 1"
    and date_type: "''Date'' \<in> set labels" "''Type'' \<in> set labels"
  shows "table_to_dataframe to_numeric table =
     (let i = index_of ''Amount'' labels;
          kept = filter (\<lambda>r. to_numeric (r ! i) \<noteq> None) (grid_texts table)
      in Inr (if kept = [] then None
              else Some \<lparr>columns = labels,
                         data = map (\<lambda>r. (map Text r)[i := Number (the (to_numeric (r ! i)))]) kept\<rparr>))"
proof -
  let ?i = "index_of ''Amount'' labels"
  let ?conv = "\<lambda>r. (map Text r)[?i := (case to_numeric (r ! ?i) of Some v \<Rightarrow> Number v | None \<Rightarrow> NaN)]"
  let ?keep = "\<lambda>r. list_all (\<lambda>(label, c). label \<notin> set [''Amount'', ''Date'', ''Type''] \<or> c \<noteq> NaN) (zip labels r)"
  have labels: "map (\<lambda>h. case h of Some t \<Rightarrow> t | None \<Rightarrow> []) (headers table) = labels"
    by (simp add: hdr o_def)
  have no_none: "\<not> list_ex (\<lambda>h. h = None) (headers table)"
    by (simp add: hdr list_ex_iff)
  have cols: "columnCount table = length labels"
    by (simp add: columnCount_def hdr)
  have mem: "''Amount'' \<in> set labels"
    using amount by (rule count_list_1_mem)
  have i: "?i < length labels" "labels ! ?i = ''Amount''"
    using mem by (simp_all add: index_of_less nth_index_of)
  have len: "length r = length labels" if "r \<in> set (grid_texts table)" for r
    using that by (auto simp: grid_texts_def cols)
  have keep: "?keep (?conv r) \<longleftrightarrow> to_numeric (r ! ?i) \<noteq> None" if "r \<in> set (grid_texts table)" for r
    using dropna_keeps_row[OF len[OF that] i, of "case to_numeric (r ! ?i) of Some v \<Rightarrow> Number v | None \<Rightarrow> NaN"]
    by (simp split: option.splits)
  have conv: "?conv r = (map Text r)[?i := Number (the (to_numeric (r ! ?i)))]"
    if "to_numeric (r ! ?i) \<noteq> None" for r
    using that by (auto split: option.splits)
  have "filter ?keep (map ?conv (grid_texts table))
      = map ?conv (filter (\<lambda>r. to_numeric (r ! ?i) \<noteq> None) (grid_texts table))"
    unfolding filter_map o_def
    by (rule arg_cong[where f = "map ?conv"], rule filter_cong[OF refl]) (rule keep)
  also have "\<dots> = map (\<lambda>r. (map Text r)[?i := Number (the (to_numeric (r ! ?i)))])
                       (filter (\<lambda>r. to_numeric (r ! ?i) \<noteq> None) (grid_texts table))"
    by (rule map_cong[OF refl]) (simp add: conv)
  finally have dropped: "filter ?keep (map ?conv (grid_texts table))
      = map (\<lambda>r. (map Text r)[?i := Number (the (to_numeric (r ! ?i)))])
          (filter (\<lambda>r. to_numeric (r ! ?i) \<noteq> None) (grid_texts table))" .
  define df' where "df' = dropna [''Amount'', ''Date'', ''Type'']
      \<lparr>columns = labels, data = map ?conv (grid_texts table)\<rparr>"
  have body: "table_to_dataframe to_numeric table = (if data df' = [] then Inr None else Inr (Some df'))"
    unfolding table_to_dataframe_def Let_def labels df'_def grid_texts_def
    using rows amount date_type no_none by simp
  have df': "df' = \<lparr>columns = labels,
                     data = map (\<lambda>r. (map Text r)[?i := Number (the (to_numeric (r ! ?i)))])
                              (filter (\<lambda>r. to_numeric (r ! ?i) \<noteq> None) (grid_texts table))\<rparr>"
    unfolding df'_def dropna_def by (simp only: dataframe.simps dropped)
  show ?thesis
    unfolding body by (simp add: df' Let_def)
qed

text \<open>
  Claim C7, as amended. For a grid with at least one row, a header item on every column,
  exactly one column labelled Amount, columns labelled Date and Type, and no empty Date or
  Type cell, the typed extraction reads every Amount as a number, drops exactly the rows
  whose Amount is not a number, and returns nothing when no row is left; the rows kept
  are in their order, with every other cell as its text. Neither the Date nor the Type
  text is parsed at this stage.
\<close>

theorem typed_rows_drop_unparsed_amounts:
  assumes "0 < rowCount table"
    and "headers table = map Some labels"
    and "count_list labels ''Amount'' = 1"
    and "''Date'' \<in> set labels" and "''Type'' \<in> set labels"
    and "list_all (\<lambda>r. list_all (\<lambda>(label, t). label \<notin> set [''Date'', ''Type''] \<or> t \<noteq> []) (zip labels r))
           (grid_texts table)"
  shows "table_to_dataframe to_numeric table =
     (let i = index_of ''Amount'' labels;
          kept = filter (\<lambda>r. to_numeric (r ! i) \<noteq> None) (grid_texts table)
      in Inr (if kept = [] then None
              else Some \<lparr>columns = labels,
                         data = map (\<lambda>r. (map Text r)[i := Number (the (to_numeric (r ! i)))]) kept\<rparr>))"
  using assms(1-5) by (rule table_to_dataframe_eq)

lemma digits_to_numeric_examples:
  "digits_to_numeric ''100'' = Some 100"
  "digits_to_numeric ''30'' = Some 30"
  "digits_to_numeric ''n/a'' = None"
  "digits_to_numeric [] = None"
  by code_simp+

theorem typed_rows_drop_unparsed_amounts_witness:
  "0 < rowCount \<lparr>headers = [Some ''Description'', Some ''Date'', Some ''Type'', Some ''Amount''],
                 items = [[Some ''Salary'', Some ''2024-01-01'', Some ''Income'', Some ''100''],
                          [Some ''Food'', Some ''2024-01-02'', Some ''Expense'', Some ''n/a''],
                          [Some ''Rent'', Some ''2024-01-03'', Some ''Expense'', Some ''30'']]\<rparr>
   \<and> count_list [''Description'', ''Date'', ''Type'', ''Amount''] ''Amount'' = 1
   \<and> table_to_dataframe digits_to_numeric
         \<lparr>headers = [Some ''Description'', Some ''Date'', Some ''Type'', Some ''Amount''],
          items = [[Some ''Salary'', Some ''2024-01-01'', Some ''Income'', Some ''100''],
                   [Some ''Food'', Some ''2024-01-02'', Some ''Expense'', Some ''n/a''],
                   [Some ''Rent'', Some ''2024-01-03'', Some ''Expense'', Some ''30'']]\<rparr>
       = Inr (Some \<lparr>columns = [''Description'', ''Date'', ''Type'', ''Amount''],
                    data = [[Text ''Salary'', Text ''2024-01-01'', Text ''Income'', Number 100],
                            [Text ''Rent'', Text ''2024-01-03'', Text ''Expense'', Number 30]]\<rparr>)"
proof -
  let ?labels = "[''Description'', ''Date'', ''Type'', ''Amount'']"
  let ?table = "\<lparr>headers = [Some ''Description'', Some ''Date'', Some ''Type'', Some ''Amount''],
                 items = [[Some ''Salary'', Some ''2024-01-01'', Some ''Income'', Some ''100''],
                          [Some ''Food'', Some ''2024-01-02'', Some ''Expense'', Some ''n/a''],
                          [Some ''Rent'', Some ''2024-01-03'', Some ''Expense'', Some ''30'']]\<rparr>"
  have texts: "grid_texts ?table =
      [[''Salary'', ''2024-01-01'', ''Income'', ''100''],
       [''Food'', ''2024-01-02'', ''Expense'', ''n/a''],
       [''Rent'', ''2024-01-03'', ''Expense'', ''30'']]"
    by code_simp
  have h1: "0 < rowCount ?table"
    by (simp add: rowCount_def)
  have h2: "headers ?table = map Some ?labels"
    by simp
  have h3: "count_list ?labels ''Amount'' = 1"
    by simp
  have h4: "''Date'' \<in> set ?labels" "''Type'' \<in> set ?labels"
    by simp_all
  have h5: "list_all (\<lambda>r. list_all (\<lambda>(label, t). label \<notin> set [''Date'', ''Type''] \<or> t \<noteq> []) (zip ?labels r))
           (grid_texts ?table)"
    unfolding texts by simp
  note inst = typed_rows_drop_unparsed_amounts [OF h1 h2 h3 h4 h5, of digits_to_numeric]
  show ?thesis
    using inst h1 h3 by (simp add: texts digits_to_numeric_examples)
qed

text \<open>
  A row whose date does not parse is kept.
\<close>

theorem typed_rows_keep_unparsed_date_counterexample:
  "iso_date ''soon'' = Unparseable
   \<and> table_to_dataframe digits_to_numeric
         \<lparr>headers = [Some ''Description'', Some ''Date'', Some ''Type'', Some ''Amount''],
          items = [[Some ''Rent'', Some ''soon'', Some ''Expense'', Some ''30'']]\<rparr>
       = Inr (Some \<lparr>columns = [''Description'', ''Date'', ''Type'', ''Amount''],
                    data = [[Text ''Rent'', Text ''soon'', Text ''Expense'', Number 30]]\<rparr>)"
  by (intro conjI) code_simp+

lemma table_to_dataframe_no_rows:
  "rowCount table = 0 \<Longrightarrow> table_to_dataframe to_numeric table = Inr None"
  by (simp add: table_to_dataframe_def)

section \<open>Export and its temporary files\<close>

lemma str_nat_small: "str_nat 0 = ''0''" "str_nat (Suc 0) = ''1''"
  by code_simp+

lemma time_chart_data_unparsed:
  "time_chart_data (map iso_date) order astype
     [\<lparr>Description = ''Salary'', Date = ''2024-01-01'', Type = ''Income'', Amount = 100 :: rat\<rparr>,
      \<lparr>Description = ''Rent'', Date = ''soon'', Type = ''Expense'', Amount = 30\<rparr>]
   = Inl ValueError"
  by (simp add: time_chart_data_def to_datetime_raise_def astype_Amount_def iso_date_examples)

text \<open>
  Claim C5. The two temporary image files are meant to be gone when the export ends,
  however it ends. They are not when a chart cannot be made: the charts are made before
  the \<open>try\<close> whose \<open>finally\<close> removes the files. With a date that does not parse, the
  pie chart's file and the time chart's file are both created, the time chart raises, and
  the export ends with both files in place, whatever the document builder and the other
  library routines would do.
\<close>

theorem export_leaves_temporary_files:
  "export \<lparr>to_datetime = map iso_date, argsort_dates = order, astype_float = astype,
           series_sum = float_sum, argsort_sums = order_of_sums,
           pie_raises = (\<lambda>series. False), build = b, format_amount = f, str_exception = s\<rparr>
          ''report.pdf''
          [\<lparr>Description = ''Salary'', Date = ''2024-01-01'', Type = ''Income'', Amount = 100 :: rat\<rparr>,
           \<lparr>Description = ''Rent'', Date = ''soon'', Type = ''Expense'', Amount = 30\<rparr>]
          \<lparr>tmp_files = [], tmp_count = 0, boxes = [], documents = []\<rparr>
   = Raised ValueError
       \<lparr>tmp_files = [''/tmp/tmp0.png'', ''/tmp/tmp1.png''], tmp_count = 2, boxes = [], documents = []\<rparr>"
  by (simp add: export_def create_chart_images_def pdf_create_pie_chart_def pdf_create_time_chart_def
        mkstemp_def Let_def str_nat_small time_chart_data_unparsed del: str_nat.simps)

text \<open>
  What does hold: once both charts are made, the export returns and neither file is left,
  whether the document is built or the build fails.
\<close>

lemma export_cleans_up_after_charts:
  assumes "df \<noteq> []" and "file_path \<noteq> []"
    and "create_chart_images L df st = Returned (pie_path, time_path) st1"
  shows "\<exists>st'. export L file_path df st = Returned () st'
           \<and> pie_path \<notin> set (tmp_files st') \<and> time_path \<notin> set (tmp_files st')"
  using assms
  by (auto simp: export_def cleanup_temp_files_def show_message_def Let_def split: option.splits)

section \<open>Import and quick save\<close>

lemma check_csv_columns_iff:
  "check_csv_columns df \<longleftrightarrow> {''Description'', ''Date'', ''Type'', ''Amount''} \<subseteq> set (csv_columns df)"
  by (simp add: check_csv_columns_def)

lemma read_missing_columns:
  assumes "filename \<noteq> []" and "read_csv filename = Inr df" and "\<not> check_csv_columns df"
  shows "read raises filename read_csv w =
           Returned ()
             (w\<lparr>current_filename := Some filename,
                shown := shown w @
                  [\<lparr>title = ''Error'',
                    msg_text = ''The CSV file does not have the required columns. Please check the User Guide for more information.'',
                    icon = Warning,
                    informative_text = ''Required columns: Description, Date, Type, Amount''\<rparr>]\<rparr>)"
  using assms by (simp add: read_def Message_show_def)

lemma read_unreadable:
  assumes "filename \<noteq> []" and "read_csv filename = Inl e"
  shows "read raises filename read_csv w =
           Returned ()
             (w\<lparr>current_filename := Some filename,
                shown := shown w @
                  [\<lparr>title = ''Error'', msg_text = ''Failed to read the CSV file.'',
                    icon = Critical, informative_text = e\<rparr>]\<rparr>)"
  using assms by (simp add: read_def Message_show_def)

text \<open>
  Claim C6. When the user has chosen a file and its header lacks one of the required
  columns Description, Date, Type, Amount, the import ends with the warning that names
  the required columns, and the grid and the edit history, as well as the reentrancy flag
  and the remembered click, are what they were before.
\<close>

theorem import_without_required_columns:
  assumes "filename \<noteq> []"
    and "read_csv filename = Inr df"
    and "\<not> {''Description'', ''Date'', ''Type'', ''Amount''} \<subseteq> set (csv_columns df)"
  shows "\<exists>w'. import_csv raises filename read_csv w = Returned () w'
           \<and> last (shown w') =
               \<lparr>title = ''Error'',
                msg_text = ''The CSV file does not have the required columns. Please check the User Guide for more information.'',
                icon = Warning,
                informative_text = ''Required columns: Description, Date, Type, Amount''\<rparr>
           \<and> tableWidget w' = tableWidget w
           \<and> undo_stack w' = undo_stack w
           \<and> ignore_change w' = ignore_change w
           \<and> last_cell w' = last_cell w \<and> last_value w' = last_value w"
proof -
  have "\<not> check_csv_columns df"
    using assms(3) by (simp only: check_csv_columns_iff not_False_eq_True)
  then show ?thesis
    using assms(1,2) by (simp add: import_csv_def read_missing_columns show_status_def)
qed

theorem import_without_required_columns_witness:
  "''new.csv'' \<noteq> []
   \<and> (\<lambda>f. Inr \<lparr>csv_columns = [''Description'', ''Date'', ''Type''],
                 csv_rows = [[''Food'', ''2024-02-01'', ''Expense'']]\<rparr>) ''new.csv''
       = (Inr \<lparr>csv_columns = [''Description'', ''Date'', ''Type''],
               csv_rows = [[''Food'', ''2024-02-01'', ''Expense'']]\<rparr> :: string + csv_frame)
   \<and> \<not> {''Description'', ''Date'', ''Type'', ''Amount''}
         \<subseteq> set (csv_columns \<lparr>csv_columns = [''Description'', ''Date'', ''Type''],
                                csv_rows = [[''Food'', ''2024-02-01'', ''Expense'']]\<rparr>)
   \<and> tableWidget (state_of (import_csv never ''new.csv''
          (\<lambda>f. Inr \<lparr>csv_columns = [''Description'', ''Date'', ''Type''],
                     csv_rows = [[''Food'', ''2024-02-01'', ''Expense'']]\<rparr>) example_window))
       = example_table
   \<and> undo_stack (state_of (import_csv never ''new.csv''
          (\<lambda>f. Inr \<lparr>csv_columns = [''Description'', ''Date'', ''Type''],
                     csv_rows = [[''Food'', ''2024-02-01'', ''Expense'']]\<rparr>) example_window))
       = \<lparr>command_list = [], index = 0\<rparr>"
proof -
  let ?df = "\<lparr>csv_columns = [''Description'', ''Date'', ''Type''],
               csv_rows = [[''Food'', ''2024-02-01'', ''Expense'']]\<rparr>"
  let ?rd = "\<lambda>f :: string. (Inr ?df :: string + csv_frame)"
  have missing: "\<not> {''Description'', ''Date'', ''Type'', ''Amount''} \<subseteq> set (csv_columns ?df)"
    by simp
  have chosen: "''new.csv'' \<noteq> []"
    by simp
  have rd: "?rd ''new.csv'' = Inr ?df"
    by simp
  note inst = import_without_required_columns [OF chosen rd missing, of never example_window]
  show ?thesis
    using inst missing by (auto simp: state_of_def example_window_def)
qed

text \<open>
  What a later quick save writes is read off the grid cell by cell; the remembered file
  name is assigned before the file is read, and filling the table never assigns it again.
\<close>

lemma setItem_keeps_filename:
  "current_filename (state_of (setItem raises w r c v)) = current_filename w"
proof (cases "ignore_change w")
  case True
  then show ?thesis
    by (simp add: setItem_ignored state_of_def del: setItem.simps)
next
  case False
  then show ?thesis
    by (simp add: on_item_changed_recorded state_of_def Let_def del: on_item_changed.simps)
qed

lemma fill_table_keeps_filename:
  "current_filename (state_of (fill_table raises cells w)) = current_filename w"
proof (induction cells arbitrary: w)
  case Nil
  then show ?case by (simp add: state_of_def)
next
  case (Cons cell cells)
  obtain r c v where cell: "cell = (r, c, v)"
    by (cases cell) auto
  show ?case
  proof (cases "setItem raises w r c v")
    case (Returned u w')
    then have "current_filename w' = current_filename w"
      using setItem_keeps_filename[of raises w r c v] by (simp add: state_of_def)
    then show ?thesis
      using Returned Cons.IH[of w'] by (simp add: cell del: setItem.simps)
  next
    case (Raised e w')
    then have "current_filename w' = current_filename w"
      using setItem_keeps_filename[of raises w r c v] by (simp add: state_of_def)
    then show ?thesis
      using Raised by (simp add: cell state_of_def del: setItem.simps)
  qed
qed

lemma read_sets_filename:
  assumes "filename \<noteq> []"
  shows "current_filename (state_of (read raises filename read_csv w)) = Some filename"
proof (cases "read_csv filename")
  case (Inl e)
  then show ?thesis
    using assms by (simp add: read_unreadable state_of_def)
next
  case (Inr df)
  show ?thesis
  proof (cases "check_csv_columns df")
    case False
    then show ?thesis
      using assms Inr by (simp add: read_missing_columns state_of_def)
  next
    case True
    then show ?thesis
      using assms Inr by (simp add: read_def Let_def fill_table_keeps_filename)
  qed
qed

lemma get_table_data_grid:
  "length (csv_rows (get_table_data table)) = rowCount table"
  "length (csv_columns (get_table_data table)) = columnCount table"
  "r < rowCount table \<Longrightarrow> length (csv_rows (get_table_data table) ! r) = columnCount table"
  "r < rowCount table \<Longrightarrow> c < columnCount table
     \<Longrightarrow> csv_rows (get_table_data table) ! r ! c = item_text table r c"
  "c < columnCount table
     \<Longrightarrow> csv_columns (get_table_data table) ! c
         = (case headers table ! c of Some h \<Rightarrow> h | None \<Rightarrow> ''Column '' @ str_nat (c + 1))"
  by (simp_all add: get_table_data_def split: option.splits del: str_nat.simps)

text \<open>
  Claim C10. When the user has chosen a file, the remembered file name is the chosen path
  after the import, however the import ends: filled table, failed read, missing column or
  a raising \<open>setItem\<close>. When the import fails, because the file cannot be read or lacks
  a required column, the window differs from the one before in the remembered file name
  and in the one message shown only, and a quick save after it makes one \<open>to_csv\<close> call,
  to the chosen path, with the frame read from the grid as it was before the import: one
  row per grid row, one cell per column holding the text of that grid cell, and the header
  texts as column names (\<open>Column n\<close> for a column without header item).
\<close>

theorem failed_import_redirects_quick_save:
  assumes "filename \<noteq> []"
  shows "current_filename (state_of (read raises filename read_csv w)) = Some filename
    \<and> ((\<exists>e. read_csv filename = Inl e) \<or> (\<exists>df. read_csv filename = Inr df \<and> \<not> check_csv_columns df)
        \<longrightarrow> (\<exists>m. read raises filename read_csv w =
                    Returned () (w\<lparr>current_filename := Some filename, shown := shown w @ [m]\<rparr>))
          \<and> (\<exists>written.
                quick_save save_dialog (state_of (read raises filename read_csv w)) =
                  (state_of (read raises filename read_csv w))
                    \<lparr>to_csv_calls := to_csv_calls w @ [(filename, written)]\<rparr>
                \<and> written = get_table_data (tableWidget w)
                \<and> length (csv_rows written) = rowCount (tableWidget w)
                \<and> length (csv_columns written) = columnCount (tableWidget w)
                \<and> (\<forall>r < rowCount (tableWidget w).
                      length (csv_rows written ! r) = columnCount (tableWidget w)
                      \<and> (\<forall>c < columnCount (tableWidget w).
                            csv_rows written ! r ! c = item_text (tableWidget w) r c))
                \<and> (\<forall>c < columnCount (tableWidget w).
                      csv_columns written ! c =
                        (case headers (tableWidget w) ! c of
                           Some h \<Rightarrow> h
                         | None \<Rightarrow> ''Column '' @ str_nat (c + 1)))))"
proof (intro conjI impI)
  show "current_filename (state_of (read raises filename read_csv w)) = Some filename"
    using assms by (rule read_sets_filename)
next
  assume fails: "(\<exists>e. read_csv filename = Inl e) \<or> (\<exists>df. read_csv filename = Inr df \<and> \<not> check_csv_columns df)"
  then show "\<exists>m. read raises filename read_csv w =
      Returned () (w\<lparr>current_filename := Some filename, shown := shown w @ [m]\<rparr>)"
    using assms by (auto simp: read_missing_columns read_unreadable)
  then obtain m where rd: "read raises filename read_csv w =
      Returned () (w\<lparr>current_filename := Some filename, shown := shown w @ [m]\<rparr>)"
    by blast
  have "quick_save save_dialog (state_of (read raises filename read_csv w)) =
      (state_of (read raises filename read_csv w))
        \<lparr>to_csv_calls := to_csv_calls w @ [(filename, get_table_data (tableWidget w))]\<rparr>"
    using assms by (simp add: rd state_of_def quick_save_def to_csv_def)
  then show "\<exists>written.
      quick_save save_dialog (state_of (read raises filename read_csv w)) =
        (state_of (read raises filename read_csv w))\<lparr>to_csv_calls := to_csv_calls w @ [(filename, written)]\<rparr>
      \<and> written = get_table_data (tableWidget w)
      \<and> length (csv_rows written) = rowCount (tableWidget w)
      \<and> length (csv_columns written) = columnCount (tableWidget w)
      \<and> (\<forall>r < rowCount (tableWidget w).
            length (csv_rows written ! r) = columnCount (tableWidget w)
            \<and> (\<forall>c < columnCount (tableWidget w).
                  csv_rows written ! r ! c = item_text (tableWidget w) r c))
      \<and> (\<forall>c < columnCount (tableWidget w).
            csv_columns written ! c =
              (case headers (tableWidget w) ! c of
                 Some h \<Rightarrow> h
               | None \<Rightarrow> ''Column '' @ str_nat (c + 1)))"
    by (intro exI[of _ "get_table_data (tableWidget w)"]) (simp add: get_table_data_grid del: str_nat.simps)
qed


theorem failed_import_redirects_quick_save_witness:
  "''new.csv'' \<noteq> []
   \<and> (\<lambda>f. Inl ''Permission denied'' :: string + csv_frame) ''new.csv'' = Inl ''Permission denied''
   \<and> current_filename example_window = Some ''old.csv''
   \<and> read never ''new.csv'' (\<lambda>f. Inl ''Permission denied'') example_window =
       Returned ()
         (example_window
            \<lparr>current_filename := Some ''new.csv'',
             shown := [\<lparr>title = ''Error'',
                        msg_text = ''Failed to read the CSV file.'',
                        icon = Critical,
                        informative_text = ''Permission denied''\<rparr>]\<rparr>)
   \<and> to_csv_calls (quick_save []
         (state_of (read never ''new.csv'' (\<lambda>f. Inl ''Permission denied'') example_window)))
       = [(''new.csv'',
           \<lparr>csv_columns = [''Description'', ''Date'', ''Type'', ''Amount''],
            csv_rows = [[''Salary'', ''2024-01-01'', ''Income'', ''100''],
                        [''Rent'', ''2024-01-03'', ''Expense'', ''30'']]\<rparr>)]
   \<and> current_filename (state_of (read never ''new.csv''
         (\<lambda>f. Inr \<lparr>csv_columns = [''Description'', ''Date'', ''Type'', ''Amount''],
                    csv_rows = [[''Food'', ''2024-02-01'', ''Expense'', ''12'']]\<rparr>) example_window))
       = Some ''new.csv''"
proof -
  let ?rd = "\<lambda>f :: string. (Inl ''Permission denied'' :: string + csv_frame)"
  let ?ok = "\<lambda>f :: string. (Inr \<lparr>csv_columns = [''Description'', ''Date'', ''Type'', ''Amount''],
                    csv_rows = [[''Food'', ''2024-02-01'', ''Expense'', ''12'']]\<rparr> :: string + csv_frame)"
  have chosen: "''new.csv'' \<noteq> []"
    by simp
  have fails: "(\<exists>e. ?rd ''new.csv'' = Inl e) \<or> (\<exists>df. ?rd ''new.csv'' = Inr df \<and> \<not> check_csv_columns df)"
    by simp
  have grid: "get_table_data example_table =
      \<lparr>csv_columns = [''Description'', ''Date'', ''Type'', ''Amount''],
       csv_rows = [[''Salary'', ''2024-01-01'', ''Income'', ''100''],
                   [''Rent'', ''2024-01-03'', ''Expense'', ''30'']]\<rparr>"
    by code_simp
  have shown_message: "read never ''new.csv'' ?rd example_window =
       Returned ()
         (example_window
            \<lparr>current_filename := Some ''new.csv'',
             shown := [\<lparr>title = ''Error'',
                        msg_text = ''Failed to read the CSV file.'',
                        icon = Critical,
                        informative_text = ''Permission denied''\<rparr>]\<rparr>)"
    by (simp add: read_unreadable example_window_def)
  note failed = failed_import_redirects_quick_save [OF chosen, of never ?rd example_window "[]"]
  note loaded = failed_import_redirects_quick_save [OF chosen, of never ?ok example_window "[]"]
  have redirected: "to_csv_calls (quick_save [] (state_of (read never ''new.csv'' ?rd example_window)))
      = [(''new.csv'', get_table_data example_table)]"
    using failed fails by (auto simp: state_of_def example_window_def)
  show ?thesis
    using failed loaded redirected grid shown_message chosen
    by (simp add: example_window_def)
qed

end
